theory Spec2Isabelle
  imports Main "HOL-Library.Sublist"
begin

section \<open>Python values, text and exceptions\<close>

text \<open>
  The monitor handles three kinds of Python values: \<^verbatim>\<open>None\<close>, \<^verbatim>\<open>str\<close> (the state codes) and
  \<^verbatim>\<open>list\<close> (the inverter states; a list is also the unhashable value a device could send
  where a code is expected). Python's \<^verbatim>\<open>==\<close> on these values is structural equality, which is
  HOL's \<open>=\<close>. A \<^verbatim>\<open>str\<close> is modelled as a \<open>string\<close> holding its UTF-8 bytes, so the emoji of
  the source are written as byte sequences. Every function that may format a list takes
  the interpreter's table of printable characters as its first argument (see \<open>repr_char\<close>).
\<close>

datatype pyval = PNone | PStr string | PList "pyval list"

text \<open>
  \<^verbatim>\<open>except Exception\<close> catches every instance of \<open>Exception\<close> and lets \<^verbatim>\<open>KeyboardInterrupt\<close>
  (a \<^verbatim>\<open>BaseException\<close>) through. The string is the text of \<^verbatim>\<open>str(e)\<close>.
\<close>

datatype py_exc = Exception string | KeyboardInterrupt

definition py_bind :: "py_exc + 'a \<Rightarrow> ('a \<Rightarrow> py_exc + 'b) \<Rightarrow> py_exc + 'b" where
  "py_bind x f = (case x of Inl e \<Rightarrow> Inl e | Inr v \<Rightarrow> f v)"

definition nl :: string where
  "nl = [CHR 0x0A]"

definition squote :: char where
  "squote = CHR 0x27"

definition dquote :: char where
  "dquote = CHR 0x22"

definition backslash :: char where
  "backslash = CHR 0x5C"

text \<open>\<^verbatim>\<open>sep.join(xs)\<close>\<close>

fun join :: "string \<Rightarrow> string list \<Rightarrow> string" where
  "join sep [] = []"
| "join sep [x] = x"
| "join sep (x # y # ys) = x @ sep @ join sep (y # ys)"

definition digit :: "nat \<Rightarrow> char" where
  "digit n = char_of (48 + n)"

definition hex_digit :: "nat \<Rightarrow> char" where
  "hex_digit n = (if n < 10 then char_of (48 + n) else char_of (87 + n))"

fun dec_nat :: "nat \<Rightarrow> string" where
  "dec_nat n = (if n < 10 then [digit n] else dec_nat (n div 10) @ [digit (n mod 10)])"

declare dec_nat.simps [simp del]

text \<open>\<^verbatim>\<open>str(i)\<close> of a Python \<^verbatim>\<open>int\<close>.\<close>

definition str_int :: "int \<Rightarrow> string" where
  "str_int i = (if i < 0 then CHR ''-'' # dec_nat (nat (- i)) else dec_nat (nat i))"

text \<open>
  The characters (code points) of a \<^verbatim>\<open>str\<close>, from its UTF-8 bytes, and back. A byte that
  does not start a complete sequence, which the encoding of a \<^verbatim>\<open>str\<close> never holds, is taken
  as a character of its own.
\<close>

fun utf8_decode :: "string \<Rightarrow> nat list" where
  "utf8_decode [] = []"
| "utf8_decode (c # cs) =
     (let n = (of_char c :: nat) in
      if n < 192 then n # utf8_decode cs
      else if n < 224 then
        (case cs of
           c1 # r \<Rightarrow> ((n mod 32) * 64 + of_char c1 mod 64) # utf8_decode r
         | _ \<Rightarrow> n # utf8_decode cs)
      else if n < 240 then
        (case cs of
           c1 # c2 # r \<Rightarrow>
             (((n mod 16) * 64 + of_char c1 mod 64) * 64 + of_char c2 mod 64) # utf8_decode r
         | _ \<Rightarrow> n # utf8_decode cs)
      else
        (case cs of
           c1 # c2 # c3 # r \<Rightarrow>
             ((((n mod 8) * 64 + of_char c1 mod 64) * 64 + of_char c2 mod 64) * 64 +
              of_char c3 mod 64) # utf8_decode r
         | _ \<Rightarrow> n # utf8_decode cs))"

definition utf8_encode :: "nat \<Rightarrow> string" where
  "utf8_encode cp =
     (if cp < 128 then [char_of cp]
      else if cp < 2048 then [char_of (192 + cp div 64), char_of (128 + cp mod 64)]
      else if cp < 65536 then
        [char_of (224 + cp div 4096), char_of (128 + cp div 64 mod 64), char_of (128 + cp mod 64)]
      else
        [char_of (240 + cp div 262144), char_of (128 + cp div 4096 mod 64),
         char_of (128 + cp div 64 mod 64), char_of (128 + cp mod 64)])"

text \<open>
  \<^verbatim>\<open>repr\<close> of a \<^verbatim>\<open>str\<close>: single quotes unless the text holds a single quote and no double
  quote; the quote and the backslash are escaped, tab, newline and carriage return get their
  letter escapes, the other ASCII control characters a \<^verbatim>\<open>\x\<close> escape. A character from
  U+0080 on is kept when it is printable and otherwise escaped with \<^verbatim>\<open>\x\<close>, \<^verbatim>\<open>\u\<close> or \<^verbatim>\<open>\U\<close> and
  two, four or eight hexadecimal digits. Which characters are printable is decided by the
  Unicode database of the interpreter (\<^verbatim>\<open>str.isprintable\<close>); it is the parameter \<open>isprintable\<close>
  of this and of every function that formats a list.
\<close>

definition repr_quote :: "string \<Rightarrow> char" where
  "repr_quote s = (if squote \<in> set s \<and> dquote \<notin> set s then dquote else squote)"

definition repr_char :: "(nat \<Rightarrow> bool) \<Rightarrow> char \<Rightarrow> nat \<Rightarrow> string" where
  "repr_char isprintable q cp =
     (if cp = of_char q \<or> cp = of_char backslash then [backslash, char_of cp]
      else if cp = 9 then [backslash, CHR ''t'']
      else if cp = 10 then [backslash, CHR ''n'']
      else if cp = 13 then [backslash, CHR ''r'']
      else if cp < 32 \<or> cp = 127
        then [backslash, CHR ''x'', hex_digit (cp div 16), hex_digit (cp mod 16)]
      else if cp < 127 then [char_of cp]
      else if isprintable cp then utf8_encode cp
      else if cp < 256
        then [backslash, CHR ''x'', hex_digit (cp div 16), hex_digit (cp mod 16)]
      else if cp < 65536
        then [backslash, CHR ''u'', hex_digit (cp div 4096), hex_digit (cp div 256 mod 16),
              hex_digit (cp div 16 mod 16), hex_digit (cp mod 16)]
      else [backslash, CHR ''U'', hex_digit (cp div 268435456 mod 16),
            hex_digit (cp div 16777216 mod 16), hex_digit (cp div 1048576 mod 16),
            hex_digit (cp div 65536 mod 16), hex_digit (cp div 4096 mod 16),
            hex_digit (cp div 256 mod 16), hex_digit (cp div 16 mod 16), hex_digit (cp mod 16)])"

definition str_repr :: "(nat \<Rightarrow> bool) \<Rightarrow> string \<Rightarrow> string" where
  "str_repr isprintable s =
     (let q = repr_quote s
      in q # concat (map (repr_char isprintable q) (utf8_decode s)) @ [q])"

fun py_repr :: "(nat \<Rightarrow> bool) \<Rightarrow> pyval \<Rightarrow> string" where
  "py_repr isprintable PNone = ''None''"
| "py_repr isprintable (PStr s) = str_repr isprintable s"
| "py_repr isprintable (PList xs) = ''['' @ join '', '' (map (py_repr isprintable) xs) @ '']''"

text \<open>\<^verbatim>\<open>str(v)\<close>, which is what an f-string field \<^verbatim>\<open>{v}\<close> inserts.\<close>

definition py_str :: "(nat \<Rightarrow> bool) \<Rightarrow> pyval \<Rightarrow> string" where
  "py_str isprintable v = (case v of PStr s \<Rightarrow> s | _ \<Rightarrow> py_repr isprintable v)"

text \<open>Lists are unhashable: using one as a dictionary key raises \<^verbatim>\<open>TypeError\<close>.\<close>

fun hashable :: "pyval \<Rightarrow> bool" where
  "hashable (PList xs) = False"
| "hashable v = True"

type_synonym pydict = "(string \<times> pyval) list"

text \<open>\<^verbatim>\<open>d.get(k)\<close>: the value, or \<^verbatim>\<open>None\<close> when the key is missing.\<close>

definition dict_get :: "pydict \<Rightarrow> string \<Rightarrow> pyval" where
  "dict_get d k = (case map_of d k of None \<Rightarrow> PNone | Some v \<Rightarrow> v)"

section \<open>The state catalogue\<close>

definition icon_green :: string where
  "icon_green = [CHR 0xF0, CHR 0x9F, CHR 0x9F, CHR 0xA2]"

definition icon_yellow :: string where
  "icon_yellow = [CHR 0xF0, CHR 0x9F, CHR 0x9F, CHR 0xA1]"

definition icon_battery :: string where
  "icon_battery = [CHR 0xF0, CHR 0x9F, CHR 0x94, CHR 0x8B]"

definition icon_red :: string where
  "icon_red = [CHR 0xF0, CHR 0x9F, CHR 0x94, CHR 0xB4]"

definition icon_question :: string where
  "icon_question = [CHR 0xE2, CHR 0x9D, CHR 0x93]"

definition icon_bell :: string where
  "icon_bell = [CHR 0xF0, CHR 0x9F, CHR 0x94, CHR 0x94]"

definition icon_arrow :: string where
  "icon_arrow = [CHR 0xE2, CHR 0x86, CHR 0x92]"

definition icon_cross :: string where
  "icon_cross = [CHR 0xE2, CHR 0x9D, CHR 0x8C]"

definition icon_wave :: string where
  "icon_wave = [CHR 0xF0, CHR 0x9F, CHR 0x91, CHR 0x8B]"

definition icon_plug :: string where
  "icon_plug = [CHR 0xF0, CHR 0x9F, CHR 0x94, CHR 0x8C]"

definition icon_antenna :: string where
  "icon_antenna = [CHR 0xF0, CHR 0x9F, CHR 0x93, CHR 0xA1]"

definition icon_target :: string where
  "icon_target = [CHR 0xF0, CHR 0x9F, CHR 0x8E, CHR 0xAF]"

definition icon_magnifier :: string where
  "icon_magnifier = [CHR 0xF0, CHR 0x9F, CHR 0x94, CHR 0x8D]"

definition icon_chart :: string where
  "icon_chart = [CHR 0xF0, CHR 0x9F, CHR 0x93, CHR 0x8A]"

definition icon_cycle :: string where
  "icon_cycle = [CHR 0xF0, CHR 0x9F, CHR 0x94, CHR 0x84]"

text \<open>A descriptor is a dictionary from field names to text.\<close>

type_synonym descriptor = "(string \<times> string) list"

definition DEVICE_STATES :: "(string \<times> descriptor) list" where
  "DEVICE_STATES =
     [(''CS00'', [(''name'', ''Available''),
                  (''description'', ''No vehicle connected - Ready for charging''),
                  (''icon'', icon_green)]),
      (''CS01'', [(''name'', ''Connected (Not Charging)''),
                  (''description'', ''Vehicle connected but charging paused/stopped''),
                  (''icon'', icon_yellow)]),
      (''CS02'', [(''name'', ''Charging''),
                  (''description'', ''Vehicle connected and actively charging''),
                  (''icon'', icon_battery)]),
      (''CS03'', [(''name'', ''Error/Fault''),
                  (''description'', ''Possible error or fault condition''),
                  (''icon'', icon_red)])]"

text \<open>The default argument of the lookup: \<^verbatim>\<open>{'name': f'Unknown ({code})', 'icon': '?'}\<close>.\<close>

definition fallback :: "(nat \<Rightarrow> bool) \<Rightarrow> pyval \<Rightarrow> descriptor" where
  "fallback isprintable code =
     [(''name'', ''Unknown ('' @ py_str isprintable code @ '')''), (''icon'', icon_question)]"

text \<open>
  \<^verbatim>\<open>DEVICE_STATES.get(code, {...})\<close>, the expression of lines 100, 101 and 135. The keys of
  the catalogue are \<^verbatim>\<open>str\<close>, so \<^verbatim>\<open>None\<close> is never found; a list cannot be hashed.
  The text of the \<^verbatim>\<open>TypeError\<close> is the one of CPython up to 3.13.
\<close>

definition describe :: "(nat \<Rightarrow> bool) \<Rightarrow> pyval \<Rightarrow> py_exc + descriptor" where
  "describe isprintable code =
     (case code of
        PList xs \<Rightarrow> Inl (Exception (''unhashable type: '' @ [squote] @ ''list'' @ [squote]))
      | PNone \<Rightarrow> Inr (fallback isprintable code)
      | PStr k \<Rightarrow> (case map_of DEVICE_STATES k of
                     Some info \<Rightarrow> Inr info
                   | None \<Rightarrow> Inr (fallback isprintable code)))"

text \<open>\<^verbatim>\<open>info[k]\<close>: a missing key raises \<^verbatim>\<open>KeyError\<close>, whose text is the \<^verbatim>\<open>repr\<close> of the key.\<close>

definition getitem :: "(nat \<Rightarrow> bool) \<Rightarrow> descriptor \<Rightarrow> string \<Rightarrow> py_exc + string" where
  "getitem isprintable info k =
     (case map_of info k of
        None \<Rightarrow> Inl (Exception (str_repr isprintable k))
      | Some v \<Rightarrow> Inr v)"

section \<open>Formatting a change report\<close>

text \<open>The reading of the clock, \<^verbatim>\<open>datetime.now()\<close>.\<close>

record datetime =
  year :: nat
  month :: nat
  day :: nat
  hour :: nat
  minute :: nat
  second :: nat

definition pad2 :: "nat \<Rightarrow> string" where
  "pad2 n = (if n < 10 then CHR ''0'' # dec_nat n else dec_nat n)"

definition pad4 :: "nat \<Rightarrow> string" where
  "pad4 n = replicate (4 - length (dec_nat n)) (CHR ''0'') @ dec_nat n"

text \<open>\<^verbatim>\<open>now.strftime('%Y-%m-%d %H:%M:%S')\<close>\<close>

definition strftime :: "datetime \<Rightarrow> string" where
  "strftime t = pad4 (year t) @ ''-'' @ pad2 (month t) @ ''-'' @ pad2 (day t) @ '' '' @
                pad2 (hour t) @ '':'' @ pad2 (minute t) @ '':'' @ pad2 (second t)"

text \<open>The three f-strings of lines 104, 105 and 110.\<close>

definition report_header :: "string \<Rightarrow> string" where
  "report_header timestamp = nl @ icon_bell @ '' ['' @ timestamp @ ''] STATE CHANGE DETECTED!''"

definition device_line ::
  "(nat \<Rightarrow> bool) \<Rightarrow> string \<Rightarrow> pyval \<Rightarrow> string \<Rightarrow> string \<Rightarrow> pyval \<Rightarrow> string \<Rightarrow> string" where
  "device_line isprintable old_icon old_state old_name new_icon new_state new_name =
     ''   Device: '' @ old_icon @ '' '' @ py_str isprintable old_state @
     '' ('' @ old_name @ '') '' @ icon_arrow @ '' '' @ new_icon @ '' '' @
     py_str isprintable new_state @ '' ('' @ new_name @ '')''"

definition inverter_line :: "(nat \<Rightarrow> bool) \<Rightarrow> pyval \<Rightarrow> pyval \<Rightarrow> string" where
  "inverter_line isprintable old_inverters new_inverters =
     ''   Inverters: '' @ py_str isprintable old_inverters @ '' '' @ icon_arrow @ '' '' @
     py_str isprintable new_inverters"

definition format_state_change ::
  "(nat \<Rightarrow> bool) \<Rightarrow> datetime \<Rightarrow> pyval \<Rightarrow> pyval \<Rightarrow> pyval \<Rightarrow> pyval \<Rightarrow> py_exc + string" where
  "format_state_change isprintable now old_state new_state old_inverters new_inverters =
     (let timestamp = strftime now in
      py_bind (describe isprintable old_state) (\<lambda>old_info.
      py_bind (describe isprintable new_state) (\<lambda>new_info.
      py_bind (getitem isprintable old_info ''icon'') (\<lambda>old_icon.
      py_bind (getitem isprintable old_info ''name'') (\<lambda>old_name.
      py_bind (getitem isprintable new_info ''icon'') (\<lambda>new_icon.
      py_bind (getitem isprintable new_info ''name'') (\<lambda>new_name.
        let lines = [report_header timestamp,
                     device_line isprintable old_icon old_state old_name
                       new_icon new_state new_name];
            lines = (if old_inverters \<noteq> new_inverters
                     then lines @ [inverter_line isprintable old_inverters new_inverters]
                     else lines)
        in Inr (join nl lines))))))))"

section \<open>The environment: effects, the device client, signals\<close>

text \<open>
  What the process does to the outside world, in order: a line given to \<^verbatim>\<open>print\<close>, a
  completed \<^verbatim>\<open>time.sleep\<close> with its duration, and the opening of a connection to the
  device (\<^verbatim>\<open>FCSP()\<close>), which marks one fetch.
\<close>

datatype effect = Print string | Sleep int | Connect

text \<open>
  What a read operation of the client hands back: a record (a \<^verbatim>\<open>dict\<close> from field names to
  values), a list of such objects, or another value, on which the extraction of the state
  fails.
\<close>

datatype pyobj = Record pydict | Objects "pyobj list" | Other pyval

definition type_name :: "pyobj \<Rightarrow> string" where
  "type_name obj =
     (case obj of
        Record d \<Rightarrow> ''dict''
      | Objects xs \<Rightarrow> ''list''
      | Other PNone \<Rightarrow> ''NoneType''
      | Other (PStr s) \<Rightarrow> ''str''
      | Other (PList vs) \<Rightarrow> ''list'')"

text \<open>\<^verbatim>\<open>obj.get(k)\<close>: only a \<^verbatim>\<open>dict\<close> has the method; elsewhere \<^verbatim>\<open>AttributeError\<close>.\<close>

definition py_get :: "pyobj \<Rightarrow> string \<Rightarrow> py_exc + pyval" where
  "py_get obj k =
     (case obj of
        Record d \<Rightarrow> Inr (dict_get d k)
      | _ \<Rightarrow> Inl (Exception ([squote] @ type_name obj @ [squote] @ '' object has no attribute '' @
                              [squote] @ ''get'' @ [squote])))"

text \<open>
  The items that \<^verbatim>\<open>for inv in obj\<close> goes through: the elements of a list, the characters of
  a \<^verbatim>\<open>str\<close>, the keys of a \<^verbatim>\<open>dict\<close>; \<^verbatim>\<open>None\<close> cannot be iterated (\<^verbatim>\<open>TypeError\<close>).
\<close>

definition py_iter :: "pyobj \<Rightarrow> py_exc + pyobj list" where
  "py_iter obj =
     (case obj of
        Objects xs \<Rightarrow> Inr xs
      | Record d \<Rightarrow> Inr (map (\<lambda>kv. Other (PStr (fst kv))) d)
      | Other (PList vs) \<Rightarrow> Inr (map Other vs)
      | Other (PStr s) \<Rightarrow> Inr (map (\<lambda>cp. Other (PStr (utf8_encode cp))) (utf8_decode s))
      | Other PNone \<Rightarrow>
          Inl (Exception ([squote] @ ''NoneType'' @ [squote] @ '' object is not iterable'')))"

text \<open>The results of a list comprehension, left to right; the first exception ends it.\<close>

fun py_collect :: "(py_exc + 'a) list \<Rightarrow> py_exc + 'a list" where
  "py_collect [] = Inr []"
| "py_collect (x # xs) = py_bind x (\<lambda>v. py_bind (py_collect xs) (\<lambda>vs. Inr (v # vs)))"

text \<open>
  Modelled from the spec: the \<^verbatim>\<open>FCSP\<close> client of the package \<^verbatim>\<open>fcsp_api\<close>, which is not among
  the sources. It is a scoped connection with two read operations, charger info and inverter
  info; by its contract the first is a record and the second an ordered list of records, and
  any failure surfaces as an exception. One value of this record is the behaviour of the
  client during one \<^verbatim>\<open>with\<close> block.
\<close>

record fcsp_env =
  acquire :: "py_exc option"
  get_charger_info :: "py_exc + pyobj"
  get_inverter_info :: "py_exc + pyobj"
  release :: "py_exc option"

text \<open>
  The \<^verbatim>\<open>with\<close> block of lines 71 to 78. The connection is released on every path; an
  exception raised by the release replaces the result of the body.
\<close>

definition with_FCSP :: "fcsp_env \<Rightarrow> py_exc + (pyval \<times> pyval)" where
  "with_FCSP env =
     (case acquire env of
        Some e \<Rightarrow> Inl e
      | None \<Rightarrow>
          (let body =
                 py_bind (get_charger_info env) (\<lambda>charger_info.
                 py_bind (get_inverter_info env) (\<lambda>inverter_info.
                 py_bind (py_get charger_info ''state'') (\<lambda>device_state.
                 py_bind (py_iter inverter_info) (\<lambda>items.
                 py_bind (py_collect (map (\<lambda>inv. py_get inv ''state'') items))
                   (\<lambda>inverter_states. Inr (device_state, PList inverter_states))))))
           in case release env of Some e \<Rightarrow> Inl e | None \<Rightarrow> body))"

definition fetch_error_line :: "string \<Rightarrow> string" where
  "fetch_error_line msg = icon_cross @ '' Error getting state: '' @ msg"

definition get_current_state :: "fcsp_env \<Rightarrow> effect list \<times> (py_exc + (pyval \<times> pyval))" where
  "get_current_state env =
     (case with_FCSP env of
        Inr r \<Rightarrow> ([Connect], Inr r)
      | Inl (Exception msg) \<Rightarrow> ([Connect, Print (fetch_error_line msg)], Inr (PNone, PNone))
      | Inl KeyboardInterrupt \<Rightarrow> ([Connect], Inl KeyboardInterrupt))"

text \<open>
  \<^verbatim>\<open>time.sleep(secs)\<close> with an \<^verbatim>\<open>int\<close>: it raises \<^verbatim>\<open>ValueError\<close> on a negative duration and
  \<^verbatim>\<open>OverflowError\<close> on a duration above 9223372036 seconds, which does not fit the
  interpreter's 64-bit count of nanoseconds (the text is the one of CPython up to 3.12);
  otherwise it returns after the duration. The wait itself is taken to succeed, as is
  every \<^verbatim>\<open>print\<close>.
\<close>

definition sleep_max :: int where
  "sleep_max = 9223372036"

definition py_sleep :: "int \<Rightarrow> effect list \<times> (py_exc + unit)" where
  "py_sleep secs =
     (if secs < 0 then ([], Inl (Exception ''sleep length must be non-negative''))
      else if sleep_max < secs
        then ([], Inl (Exception ''timestamp too large to convert to C _PyTime_t''))
      else ([Sleep secs], Inr ()))"

section \<open>The monitor\<close>

record monitor_state =
  poll_interval :: int
  previous_state :: pyval
  previous_inverter_states :: pyval
  running :: bool

text \<open>
  \<^verbatim>\<open>__init__\<close>: the interval is stored as given; the two calls of \<^verbatim>\<open>signal.signal\<close> may
  raise (their outcomes are the two last arguments).
\<close>

definition init :: "int \<Rightarrow> py_exc option \<Rightarrow> py_exc option \<Rightarrow> py_exc + monitor_state" where
  "init interval sigint_reg sigterm_reg =
     (let self = \<lparr>poll_interval = interval, previous_state = PNone,
                  previous_inverter_states = PNone, running = False\<rparr>
      in case sigint_reg of
           Some e \<Rightarrow> Inl e
         | None \<Rightarrow> (case sigterm_reg of Some e \<Rightarrow> Inl e | None \<Rightarrow> Inr self))"

definition signal_handler :: "int \<Rightarrow> monitor_state \<Rightarrow> effect list \<times> monitor_state" where
  "signal_handler signum self =
     ([Print (nl @ icon_wave @ '' Received signal '' @ str_int signum @
              '', shutting down gracefully...'')],
      self\<lparr>running := False\<rparr>)"

text \<open>
  A signal is delivered asynchronously. The environment says whether one arrives during a
  sleep or during a fetch; the handler then runs before the main flow goes on.
\<close>

definition deliver :: "int option \<Rightarrow> monitor_state \<Rightarrow> effect list \<times> monitor_state" where
  "deliver sig self = (case sig of None \<Rightarrow> ([], self) | Some signum \<Rightarrow> signal_handler signum self)"

record fetch_env =
  client :: fcsp_env
  signal_in_fetch :: "int option"

record cycle_env =
  signal_in_sleep :: "int option"
  fetch :: fetch_env
  clock :: datetime

text \<open>
  A fetch together with the signal that may arrive during it. The handler is run when the
  fetch is over, so its line follows the output of the fetch.
\<close>

definition do_fetch ::
  "fetch_env \<Rightarrow> monitor_state \<Rightarrow> effect list \<times> (py_exc + (pyval \<times> pyval)) \<times> monitor_state" where
  "do_fetch fe self =
     (case get_current_state (client fe) of (out, r) \<Rightarrow>
      case deliver (signal_in_fetch fe) self of (sig_out, self') \<Rightarrow>
        (out @ sig_out, r, self'))"

definition banner :: "int \<Rightarrow> effect list" where
  "banner interval =
     [Print (icon_plug @ '' FCSP State Monitor''),
      Print (icon_antenna @ '' Polling every '' @ str_int interval @ '' seconds''),
      Print (icon_target @ '' Press Ctrl+C to stop''),
      Print (replicate 50 (CHR ''='')),
      Print (icon_magnifier @ '' Getting initial state...'')]"

definition initial_failure_line :: string where
  "initial_failure_line = icon_cross @ '' Failed to get initial state. Exiting.''"

text \<open>
  Lines 116 to 137 of \<^verbatim>\<open>monitor\<close>. The result \<open>Inr False\<close> is the early \<^verbatim>\<open>return\<close> of line 129,
  \<open>Inr True\<close> the entry into the loop.
\<close>

definition monitor_start ::
  "(nat \<Rightarrow> bool) \<Rightarrow> fetch_env \<Rightarrow> monitor_state \<Rightarrow>
     effect list \<times> (py_exc + bool) \<times> monitor_state" where
  "monitor_start isprintable fe self0 =
     (let self1 = self0\<lparr>running := True\<rparr> in
      case do_fetch fe self1 of (out, r, self2) \<Rightarrow>
      (case r of
        Inl e \<Rightarrow> (banner (poll_interval self0) @ out, Inl e, self2)
      | Inr (initial_state, initial_inverters) \<Rightarrow>
          if initial_state = PNone
          then (banner (poll_interval self0) @ out @ [Print initial_failure_line], Inr False, self2)
          else
            (let self3 = self2\<lparr>previous_state := initial_state,
                               previous_inverter_states := initial_inverters\<rparr>;
                 shown =
                   py_bind (describe isprintable initial_state) (\<lambda>initial_info.
                   py_bind (getitem isprintable initial_info ''icon'') (\<lambda>icon.
                   py_bind (getitem isprintable initial_info ''name'') (\<lambda>name.
                     Inr [Print (icon_chart @ '' Initial state: '' @ icon @ '' '' @
                                 py_str isprintable initial_state @ '' - '' @ name),
                          Print (icon_cycle @ '' Starting monitoring loop...'' @ nl)])))
             in case shown of
                  Inl e \<Rightarrow> (banner (poll_interval self0) @ out, Inl e, self3)
                | Inr lines \<Rightarrow> (banner (poll_interval self0) @ out @ lines, Inr True, self3))))"

datatype ctl = Continue | Break

text \<open>
  The body of the \<^verbatim>\<open>try\<close> of lines 142 to 167: \<open>Inl\<close> is an exception leaving the body,
  \<open>Inr Break\<close> the \<^verbatim>\<open>break\<close> of line 146, \<open>Inr Continue\<close> the \<^verbatim>\<open>continue\<close> of line 152 or the end
  of the body.
\<close>

definition try_body ::
  "(nat \<Rightarrow> bool) \<Rightarrow> cycle_env \<Rightarrow> monitor_state \<Rightarrow>
     effect list \<times> (py_exc + ctl) \<times> monitor_state" where
  "try_body isprintable e self =
     (case py_sleep (poll_interval self) of
        (out, Inl ex) \<Rightarrow> (out, Inl ex, self)
      | (out, Inr u) \<Rightarrow>
          (case deliver (signal_in_sleep e) self of (sig_out, self1) \<Rightarrow>
           if \<not> running self1 then (out @ sig_out, Inr Break, self1)
           else
             (case do_fetch (fetch e) self1 of (f_out, r, self2) \<Rightarrow>
              (case r of
                Inl ex \<Rightarrow> (out @ sig_out @ f_out, Inl ex, self2)
              | Inr (current_state, current_inverters) \<Rightarrow>
                  if current_state = PNone then (out @ sig_out @ f_out, Inr Continue, self2)
                  else if current_state \<noteq> previous_state self2 \<or>
                          current_inverters \<noteq> previous_inverter_states self2
                  then
                    (case format_state_change isprintable (clock e) (previous_state self2)
                            current_state (previous_inverter_states self2) current_inverters of
                       Inl ex \<Rightarrow> (out @ sig_out @ f_out, Inl ex, self2)
                     | Inr change_message \<Rightarrow>
                         (out @ sig_out @ f_out @ [Print change_message], Inr Continue,
                          self2\<lparr>previous_state := current_state,
                                previous_inverter_states := current_inverters\<rparr>))
                  else (out @ sig_out @ f_out, Inr Continue, self2)))))"

definition recovery_delay :: int where
  "recovery_delay = 5"

definition unexpected_error_line :: "string \<Rightarrow> string" where
  "unexpected_error_line msg = icon_cross @ '' Unexpected error in monitoring loop: '' @ msg"

text \<open>
  One iteration of the loop of line 140, entered with \<open>running\<close> true: the \<^verbatim>\<open>try\<close> body with
  its two handlers. \<^verbatim>\<open>time.sleep(5)\<close> cannot raise, 5 being within the bounds.
\<close>

definition monitor_cycle ::
  "(nat \<Rightarrow> bool) \<Rightarrow> cycle_env \<Rightarrow> monitor_state \<Rightarrow> effect list \<times> ctl \<times> monitor_state" where
  "monitor_cycle isprintable e self =
     (case try_body isprintable e self of
        (out, Inr c, self') \<Rightarrow> (out, c, self')
      | (out, Inl KeyboardInterrupt, self') \<Rightarrow> (out, Break, self')
      | (out, Inl (Exception msg), self') \<Rightarrow>
          (out @ [Print (unexpected_error_line msg), Sleep recovery_delay], Continue, self'))"

text \<open>
  The \<^verbatim>\<open>while self.running\<close> loop over a schedule, one entry per iteration. The loop need not
  end: the boolean of the result tells whether it ended within the schedule. The list holds
  the monitor's state after each iteration that ran.
\<close>

fun monitor_loop ::
  "(nat \<Rightarrow> bool) \<Rightarrow> cycle_env list \<Rightarrow> monitor_state \<Rightarrow>
     effect list \<times> bool \<times> monitor_state list" where
  "monitor_loop isprintable [] self = ([], \<not> running self, [])"
| "monitor_loop isprintable (e # es) self =
     (if \<not> running self then ([], True, [])
      else (case monitor_cycle isprintable e self of
              (out, Break, self') \<Rightarrow> (out, True, [self'])
            | (out, Continue, self') \<Rightarrow>
                (case monitor_loop isprintable es self' of (out', ended, trace) \<Rightarrow>
                   (out @ out', ended, self' # trace))))"

datatype run_end = Returned | Raised py_exc | Unfinished

definition stopped_line :: string where
  "stopped_line = nl @ icon_wave @ '' Monitoring stopped''"

definition monitor ::
  "(nat \<Rightarrow> bool) \<Rightarrow> fetch_env \<Rightarrow> cycle_env list \<Rightarrow> monitor_state \<Rightarrow> effect list \<times> run_end" where
  "monitor isprintable fe es self0 =
     (case monitor_start isprintable fe self0 of
        (out, Inl e, self) \<Rightarrow> (out, Raised e)
      | (out, Inr False, self) \<Rightarrow> (out, Returned)
      | (out, Inr True, self) \<Rightarrow>
          (case monitor_loop isprintable es self of (out', ended, trace) \<Rightarrow>
             if ended then (out @ out' @ [Print stopped_line], Returned)
             else (out @ out', Unfinished)))"

section \<open>The entry point\<close>

text \<open>
  How the process ends: with an exit status, by an uncaught \<^verbatim>\<open>KeyboardInterrupt\<close>, or not
  within the schedule. Leaving \<^verbatim>\<open>main\<close> normally is exit status 0; \<^verbatim>\<open>sys.exit(1)\<close> is 1.
\<close>

datatype process_end = Exit int | Interrupted | StillRunning

definition start_failure_line :: "string \<Rightarrow> string" where
  "start_failure_line msg = icon_cross @ '' Failed to start monitor: '' @ msg"

text \<open>
  \<^verbatim>\<open>main\<close>, after the arguments are parsed: \<open>interval\<close> is the value of \<^verbatim>\<open>--interval\<close>, which
  \<^verbatim>\<open>argparse\<close> has converted with \<^verbatim>\<open>int\<close>.
\<close>

definition main ::
  "(nat \<Rightarrow> bool) \<Rightarrow> int \<Rightarrow> py_exc option \<Rightarrow> py_exc option \<Rightarrow> fetch_env \<Rightarrow> cycle_env list \<Rightarrow>
     effect list \<times> process_end" where
  "main isprintable interval sigint_reg sigterm_reg fe es =
     (case init interval sigint_reg sigterm_reg of
        Inl (Exception msg) \<Rightarrow> ([Print (start_failure_line msg)], Exit 1)
      | Inl KeyboardInterrupt \<Rightarrow> ([], Interrupted)
      | Inr self \<Rightarrow>
          (case monitor isprintable fe es self of
             (out, Raised (Exception msg)) \<Rightarrow> (out @ [Print (start_failure_line msg)], Exit 1)
           | (out, Raised KeyboardInterrupt) \<Rightarrow> (out, Interrupted)
           | (out, Returned) \<Rightarrow> (out, Exit 0)
           | (out, Unfinished) \<Rightarrow> (out, StillRunning)))"

section \<open>Example environments\<close>

text \<open>Concrete clients, cycles and monitor states on which the theorems below are run.\<close>

definition example_client :: "pyval \<Rightarrow> pyval list \<Rightarrow> fcsp_env" where
  "example_client st ivs =
     \<lparr>acquire = None, get_charger_info = Inr (Record [(''state'', st)]),
      get_inverter_info = Inr (Objects (map (\<lambda>v. Record [(''state'', v)]) ivs)),
      release = None\<rparr>"

definition unreachable_client :: "string \<Rightarrow> fcsp_env" where
  "unreachable_client msg =
     \<lparr>acquire = Some (Exception msg), get_charger_info = Inr (Record []),
      get_inverter_info = Inr (Objects []), release = None\<rparr>"

text \<open>
  A table of printable characters for the examples: the printable characters of the Latin-1
  supplement. The texts of the examples are ASCII, so it is never consulted.
\<close>

definition example_printable :: "nat \<Rightarrow> bool" where
  "example_printable cp = (161 \<le> cp \<and> cp \<le> 255 \<and> cp \<noteq> 173)"

definition example_clock :: datetime where
  "example_clock = \<lparr>year = 2024, month = 3, day = 9, hour = 7, minute = 5, second = 0\<rparr>"

definition quiet_fetch :: "fcsp_env \<Rightarrow> fetch_env" where
  "quiet_fetch c = \<lparr>client = c, signal_in_fetch = None\<rparr>"

definition quiet_cycle :: "fcsp_env \<Rightarrow> cycle_env" where
  "quiet_cycle c = \<lparr>signal_in_sleep = None, fetch = quiet_fetch c, clock = example_clock\<rparr>"

definition example_monitor :: "int \<Rightarrow> pyval \<Rightarrow> pyval \<Rightarrow> monitor_state" where
  "example_monitor i st ivs =
     \<lparr>poll_interval = i, previous_state = st, previous_inverter_states = ivs, running = True\<rparr>"

definition example_report :: string where
  "example_report =
     nl @ icon_bell @ '' [2024-03-09 07:05:00] STATE CHANGE DETECTED!'' @ nl @
     ''   Device: '' @ icon_green @ '' CS00 (Available) '' @ icon_arrow @ '' '' @
     icon_battery @ '' CS02 (Charging)'' @ nl @
     ''   Inverters: [] '' @ icon_arrow @ '' ['' @ [squote] @ ''charging'' @ [squote] @ '']''"

section \<open>Descriptor lookup\<close>

lemma catalogue_entry_fields:
  "map_of DEVICE_STATES k = Some info \<Longrightarrow>
     \<exists>icon name. getitem pr info ''icon'' = Inr icon \<and> getitem pr info ''name'' = Inr name"
  by (auto simp: DEVICE_STATES_def getitem_def split: if_splits)

lemma fallback_fields:
  "getitem pr (fallback pr code) ''icon'' = Inr icon_question"
  "getitem pr (fallback pr code) ''name'' = Inr (''Unknown ('' @ py_str pr code @ '')'')"
  by (simp_all add: fallback_def getitem_def)

lemma describe_hashable:
  "hashable code \<Longrightarrow>
     \<exists>info icon name. describe pr code = Inr info \<and> getitem pr info ''icon'' = Inr icon \<and>
        getitem pr info ''name'' = Inr name"
proof (cases code)
  case PNone
  then show ?thesis by (simp add: describe_def fallback_fields)
next
  case (PStr k)
  show ?thesis
  proof (cases "map_of DEVICE_STATES k")
    case None
    with PStr show ?thesis by (simp add: describe_def fallback_fields)
  next
    case (Some info)
    with PStr catalogue_entry_fields [OF Some] show ?thesis by (simp add: describe_def)
  qed
next
  case (PList xs)
  assume "hashable code"
  with PList show ?thesis by simp
qed

lemma describe_unhashable:
  "\<not> hashable code \<Longrightarrow>
     describe pr code = Inl (Exception (''unhashable type: '' @ [squote] @ ''list'' @ [squote]))"
  by (cases code) (simp_all add: describe_def)

text \<open>
  Claim C6, amended. For every state code that can be hashed (a \<^verbatim>\<open>str\<close>, or \<^verbatim>\<open>None\<close>) the lookup
  returns a descriptor whose \<open>icon\<close> and \<open>name\<close> can be read, so neither the lookup nor the
  two subscripts raise; a \<^verbatim>\<open>str\<close> that is not one of the four keys of the catalogue, and
  \<^verbatim>\<open>None\<close>, get the descriptor with the name \<^verbatim>\<open>Unknown (<code>)\<close> and the question-mark icon.
  For a list the lookup raises \<^verbatim>\<open>TypeError\<close>.
\<close>

theorem describe_unknown_code:
  "(hashable code \<longrightarrow>
      (\<exists>info icon name. describe pr code = Inr info \<and> getitem pr info ''icon'' = Inr icon \<and>
         getitem pr info ''name'' = Inr name)) \<and>
   (k \<notin> {''CS00'', ''CS01'', ''CS02'', ''CS03''} \<longrightarrow>
      describe pr (PStr k) =
        Inr [(''name'', ''Unknown ('' @ k @ '')''),
             (''icon'', [CHR 0xE2, CHR 0x9D, CHR 0x93])]) \<and>
   describe pr PNone =
     Inr [(''name'', ''Unknown (None)''), (''icon'', [CHR 0xE2, CHR 0x9D, CHR 0x93])] \<and>
   describe pr (PList xs) =
     Inl (Exception (''unhashable type: '' @ [CHR 0x27] @ ''list'' @ [CHR 0x27]))"
proof (intro conjI impI)
  assume "hashable code"
  then show "\<exists>info icon name. describe pr code = Inr info \<and> getitem pr info ''icon'' = Inr icon \<and>
         getitem pr info ''name'' = Inr name"
    by (rule describe_hashable)
next
  assume "k \<notin> {''CS00'', ''CS01'', ''CS02'', ''CS03''}"
  then have "map_of DEVICE_STATES k = None"
    by (simp add: DEVICE_STATES_def)
  then show "describe pr (PStr k) =
        Inr [(''name'', ''Unknown ('' @ k @ '')''), (''icon'', [CHR 0xE2, CHR 0x9D, CHR 0x93])]"
    by (simp add: describe_def fallback_def py_str_def icon_question_def)
next
  show "describe pr PNone = Inr [(''name'', ''Unknown (None)''), (''icon'', [CHR 0xE2, CHR 0x9D, CHR 0x93])]"
    by (simp add: describe_def fallback_def py_str_def icon_question_def)
next
  show "describe pr (PList xs) = Inl (Exception (''unhashable type: '' @ [CHR 0x27] @ ''list'' @ [CHR 0x27]))"
    by (simp add: describe_def squote_def)
qed

theorem describe_unknown_code_witness:
  "hashable (PStr ''CS99'') \<and> ''CS99'' \<notin> {''CS00'', ''CS01'', ''CS02'', ''CS03''} \<and>
   describe example_printable (PStr ''CS99'') =
     Inr [(''name'', ''Unknown (CS99)''), (''icon'', [CHR 0xE2, CHR 0x9D, CHR 0x93])] \<and>
   getitem example_printable [(''name'', ''Unknown (CS99)''), (''icon'', [CHR 0xE2, CHR 0x9D, CHR 0x93])] ''name'' =
     Inr ''Unknown (CS99)'' \<and>
   getitem example_printable [(''name'', ''Unknown (CS99)''), (''icon'', [CHR 0xE2, CHR 0x9D, CHR 0x93])] ''icon'' =
     Inr [CHR 0xE2, CHR 0x9D, CHR 0x93]"
  using describe_unknown_code [of "PStr ''CS99''" example_printable "''CS99''"]
  by (simp add: getitem_def)

text \<open>
  Claim C6 as stated fails: a device state that is a list cannot be looked up; the lookup
  raises.
\<close>

theorem describe_list_counterexample:
  "describe example_printable (PList []) = Inl (Exception (''unhashable type: '' @ [CHR 0x27] @ ''list'' @ [CHR 0x27]))"
  by (simp add: describe_def squote_def)

section \<open>Fetching the state\<close>

lemma py_collect_records:
  "py_collect (map (\<lambda>d. py_get (Record d) k) ds) = Inr (map (\<lambda>d. dict_get d k) ds)"
  by (induction ds) (simp_all add: py_get_def py_bind_def)

lemma with_FCSP_success:
  "acquire env = None \<Longrightarrow> release env = None \<Longrightarrow> get_charger_info env = Inr (Record ci) \<Longrightarrow>
     get_inverter_info env = Inr (Objects (map Record ii)) \<Longrightarrow>
     with_FCSP env = Inr (dict_get ci ''state'', PList (map (\<lambda>d. dict_get d ''state'') ii))"
proof -
  assume a: "acquire env = None" "release env = None" "get_charger_info env = Inr (Record ci)"
    "get_inverter_info env = Inr (Objects (map Record ii))"
  have g: "py_get (Record ci) ''state'' = Inr (dict_get ci ''state'')"
    by (simp add: py_get_def)
  have i: "py_iter (Objects (map Record ii)) = Inr (map Record ii)"
    by (simp add: py_iter_def)
  show ?thesis
    by (simp add: with_FCSP_def a g i py_collect_records py_bind_def comp_def)
qed

text \<open>
  Claim C9. An error (an instance of \<open>Exception\<close>) raised at any step of the fetch: by the
  acquisition of the connection, by the request for the charger info or for the inverter
  info, by the extraction of the device state or of an inverter state, or by the release of
  the connection. Each time \<open>get_current_state\<close> prints the error line with the text of the
  error and returns the pair \<^verbatim>\<open>(None, None)\<close>. And for no client does \<open>get_current_state\<close>
  itself raise an error.
\<close>

theorem get_current_state_catches_errors:
  "(acquire env = Some (Exception msg) \<or>
    acquire env = None \<and> release env = Some (Exception msg) \<or>
    acquire env = None \<and> release env = None \<and>
      (get_charger_info env = Inl (Exception msg) \<or>
       (\<exists>charger_info. get_charger_info env = Inr charger_info \<and>
          (get_inverter_info env = Inl (Exception msg) \<or>
           (\<exists>inverter_info. get_inverter_info env = Inr inverter_info \<and>
              (py_get charger_info ''state'' = Inl (Exception msg) \<or>
               (\<exists>device_state. py_get charger_info ''state'' = Inr device_state) \<and>
                 (py_iter inverter_info = Inl (Exception msg) \<or>
                  (\<exists>items. py_iter inverter_info = Inr items \<and>
                     py_collect (map (\<lambda>inv. py_get inv ''state'') items) =
                       Inl (Exception msg))))))))
    \<longrightarrow>
      get_current_state env =
        ([Connect,
          Print ([CHR 0xE2, CHR 0x9D, CHR 0x8C] @ '' Error getting state: '' @ msg)],
         Inr (PNone, PNone))) \<and>
   snd (get_current_state env) \<noteq> Inl (Exception msg')"
proof (intro conjI impI)
  show "snd (get_current_state env) \<noteq> Inl (Exception msg')"
    by (auto simp: get_current_state_def split: sum.splits py_exc.splits)
next
  assume "acquire env = Some (Exception msg) \<or>
    acquire env = None \<and> release env = Some (Exception msg) \<or>
    acquire env = None \<and> release env = None \<and>
      (get_charger_info env = Inl (Exception msg) \<or>
       (\<exists>charger_info. get_charger_info env = Inr charger_info \<and>
          (get_inverter_info env = Inl (Exception msg) \<or>
           (\<exists>inverter_info. get_inverter_info env = Inr inverter_info \<and>
              (py_get charger_info ''state'' = Inl (Exception msg) \<or>
               (\<exists>device_state. py_get charger_info ''state'' = Inr device_state) \<and>
                 (py_iter inverter_info = Inl (Exception msg) \<or>
                  (\<exists>items. py_iter inverter_info = Inr items \<and>
                     py_collect (map (\<lambda>inv. py_get inv ''state'') items) =
                       Inl (Exception msg))))))))"
  then have "with_FCSP env = Inl (Exception msg)"
    by (auto simp: with_FCSP_def py_bind_def)
  then show "get_current_state env =
        ([Connect,
          Print ([CHR 0xE2, CHR 0x9D, CHR 0x8C] @ '' Error getting state: '' @ msg)],
         Inr (PNone, PNone))"
    by (simp add: get_current_state_def fetch_error_line_def icon_cross_def)
qed

theorem get_current_state_catches_errors_witness:
  "get_current_state
       \<lparr>acquire = Some (Exception ''timed out''), get_charger_info = Inr (Record []),
        get_inverter_info = Inr (Objects []),
        release = None\<rparr> =
     ([Connect, Print ([CHR 0xE2, CHR 0x9D, CHR 0x8C] @ '' Error getting state: '' @
                       ''timed out'')],
      Inr (PNone, PNone)) \<and>
   get_current_state
       \<lparr>acquire = None, get_charger_info = Inl (Exception ''HTTP 500''),
        get_inverter_info = Inr (Objects [Record [(''state'', PStr ''idle'')]]),
        release = None\<rparr> =
     ([Connect, Print ([CHR 0xE2, CHR 0x9D, CHR 0x8C] @ '' Error getting state: '' @
                       ''HTTP 500'')],
      Inr (PNone, PNone)) \<and>
   get_current_state
       \<lparr>acquire = None, get_charger_info = Inr (Record [(''state'', PStr ''CS00'')]),
        get_inverter_info = Inl (Exception ''HTTP 503''),
        release = None\<rparr> =
     ([Connect, Print ([CHR 0xE2, CHR 0x9D, CHR 0x8C] @ '' Error getting state: '' @
                       ''HTTP 503'')],
      Inr (PNone, PNone)) \<and>
   get_current_state
       \<lparr>acquire = None, get_charger_info = Inr (Other PNone),
        get_inverter_info = Inr (Objects [Record [(''state'', PStr ''idle'')]]),
        release = None\<rparr> =
     ([Connect, Print ([CHR 0xE2, CHR 0x9D, CHR 0x8C] @ '' Error getting state: '' @
                       [CHR 0x27] @ ''NoneType'' @ [CHR 0x27] @ '' object has no attribute '' @ [CHR 0x27] @ ''get'' @ [CHR 0x27])],
      Inr (PNone, PNone)) \<and>
   get_current_state
       \<lparr>acquire = None, get_charger_info = Inr (Record [(''state'', PStr ''CS00'')]),
        get_inverter_info = Inr (Objects [Record [(''state'', PStr ''idle'')], Other (PStr ''offline'')]),
        release = None\<rparr> =
     ([Connect, Print ([CHR 0xE2, CHR 0x9D, CHR 0x8C] @ '' Error getting state: '' @
                       [CHR 0x27] @ ''str'' @ [CHR 0x27] @ '' object has no attribute '' @ [CHR 0x27] @ ''get'' @ [CHR 0x27])],
      Inr (PNone, PNone)) \<and>
   get_current_state
       \<lparr>acquire = None, get_charger_info = Inr (Record [(''state'', PStr ''CS00'')]),
        get_inverter_info = Inr (Other PNone),
        release = None\<rparr> =
     ([Connect, Print ([CHR 0xE2, CHR 0x9D, CHR 0x8C] @ '' Error getting state: '' @
                       [CHR 0x27] @ ''NoneType'' @ [CHR 0x27] @ '' object is not iterable'')],
      Inr (PNone, PNone)) \<and>
   get_current_state
       \<lparr>acquire = None, get_charger_info = Inr (Record [(''state'', PStr ''CS00'')]),
        get_inverter_info = Inr (Objects [Record [(''state'', PStr ''idle'')]]),
        release = Some (Exception ''connection reset'')\<rparr> =
     ([Connect, Print ([CHR 0xE2, CHR 0x9D, CHR 0x8C] @ '' Error getting state: '' @
                       ''connection reset'')],
      Inr (PNone, PNone))"
  using get_current_state_catches_errors
      [of "\<lparr>acquire = Some (Exception ''timed out''), get_charger_info = Inr (Record []),
        get_inverter_info = Inr (Objects []),
        release = None\<rparr>"
          "''timed out''"]
    get_current_state_catches_errors
      [of "\<lparr>acquire = None, get_charger_info = Inl (Exception ''HTTP 500''),
        get_inverter_info = Inr (Objects [Record [(''state'', PStr ''idle'')]]),
        release = None\<rparr>"
          "''HTTP 500''"]
    get_current_state_catches_errors
      [of "\<lparr>acquire = None, get_charger_info = Inr (Record [(''state'', PStr ''CS00'')]),
        get_inverter_info = Inl (Exception ''HTTP 503''),
        release = None\<rparr>"
          "''HTTP 503''"]
    get_current_state_catches_errors
      [of "\<lparr>acquire = None, get_charger_info = Inr (Other PNone),
        get_inverter_info = Inr (Objects [Record [(''state'', PStr ''idle'')]]),
        release = None\<rparr>"
          "[CHR 0x27] @ ''NoneType'' @ [CHR 0x27] @ '' object has no attribute '' @ [CHR 0x27] @ ''get'' @ [CHR 0x27]"]
    get_current_state_catches_errors
      [of "\<lparr>acquire = None, get_charger_info = Inr (Record [(''state'', PStr ''CS00'')]),
        get_inverter_info = Inr (Objects [Record [(''state'', PStr ''idle'')], Other (PStr ''offline'')]),
        release = None\<rparr>"
          "[CHR 0x27] @ ''str'' @ [CHR 0x27] @ '' object has no attribute '' @ [CHR 0x27] @ ''get'' @ [CHR 0x27]"]
    get_current_state_catches_errors
      [of "\<lparr>acquire = None, get_charger_info = Inr (Record [(''state'', PStr ''CS00'')]),
        get_inverter_info = Inr (Other PNone),
        release = None\<rparr>"
          "[CHR 0x27] @ ''NoneType'' @ [CHR 0x27] @ '' object is not iterable''"]
    get_current_state_catches_errors
      [of "\<lparr>acquire = None, get_charger_info = Inr (Record [(''state'', PStr ''CS00'')]),
        get_inverter_info = Inr (Objects [Record [(''state'', PStr ''idle'')]]),
        release = Some (Exception ''connection reset'')\<rparr>"
          "''connection reset''"]
  by (simp add: py_get_def py_iter_def py_bind_def type_name_def squote_def)

section \<open>One iteration of the loop\<close>

lemma deliver_frame [simp]:
  "previous_state (snd (deliver sig self)) = previous_state self"
  "previous_inverter_states (snd (deliver sig self)) = previous_inverter_states self"
  "poll_interval (snd (deliver sig self)) = poll_interval self"
  "running (snd (deliver sig self)) = (running self \<and> sig = None)"
  by (auto simp: deliver_def signal_handler_def split: option.splits)

lemma deliver_None [simp]: "deliver None self = ([], self)"
  by (simp add: deliver_def)

lemma do_fetch_eq:
  "do_fetch fe self =
     (fst (get_current_state (client fe)) @ fst (deliver (signal_in_fetch fe) self),
      snd (get_current_state (client fe)), snd (deliver (signal_in_fetch fe) self))"
  by (simp add: do_fetch_def split: prod.splits)

lemma get_current_state_success:
  "with_FCSP c = Inr r \<Longrightarrow> get_current_state c = ([Connect], Inr r)"
  by (simp add: get_current_state_def)

lemma format_never_interrupts:
  "format_state_change pr now os ns oi ni \<noteq> Inl KeyboardInterrupt"
  by (cases os; cases ns)
     (auto simp: format_state_change_def describe_def getitem_def py_bind_def Let_def
           split: sum.splits option.splits)

text \<open>
  An iteration that polls: the sleep returns, no signal arrives in it, the fetch returns.
\<close>

lemma try_body_polled:
  assumes "running self" "0 \<le> poll_interval self" "poll_interval self \<le> sleep_max"
    and "signal_in_sleep e = None"
    and "get_current_state (client (fetch e)) = (f_out, Inr (cs, ci))"
  shows "try_body pr e self =
     (let self2 = snd (deliver (signal_in_fetch (fetch e)) self);
          out = Sleep (poll_interval self) # f_out @ fst (deliver (signal_in_fetch (fetch e)) self)
      in if cs = PNone then (out, Inr Continue, self2)
         else if cs \<noteq> previous_state self \<or> ci \<noteq> previous_inverter_states self
         then (case format_state_change pr (clock e) (previous_state self) cs
                      (previous_inverter_states self) ci of
                 Inl ex \<Rightarrow> (out, Inl ex, self2)
               | Inr change_message \<Rightarrow>
                   (out @ [Print change_message], Inr Continue,
                    self2\<lparr>previous_state := cs, previous_inverter_states := ci\<rparr>))
         else (out, Inr Continue, self2))"
  using assms
  by (simp add: try_body_def py_sleep_def do_fetch_eq Let_def split: sum.splits)

lemma monitor_cycle_polled:
  assumes "running self" "0 \<le> poll_interval self" "poll_interval self \<le> sleep_max"
    and "signal_in_sleep e = None"
    and "get_current_state (client (fetch e)) = (f_out, Inr (cs, ci))"
  shows "monitor_cycle pr e self =
     (let self2 = snd (deliver (signal_in_fetch (fetch e)) self);
          out = Sleep (poll_interval self) # f_out @ fst (deliver (signal_in_fetch (fetch e)) self)
      in if cs = PNone then (out, Continue, self2)
         else if cs \<noteq> previous_state self \<or> ci \<noteq> previous_inverter_states self
         then (case format_state_change pr (clock e) (previous_state self) cs
                      (previous_inverter_states self) ci of
                 Inl KeyboardInterrupt \<Rightarrow> (out, Break, self2)
               | Inl (Exception msg) \<Rightarrow>
                   (out @ [Print (unexpected_error_line msg), Sleep recovery_delay], Continue, self2)
               | Inr change_message \<Rightarrow>
                   (out @ [Print change_message], Continue,
                    self2\<lparr>previous_state := cs, previous_inverter_states := ci\<rparr>))
         else (out, Continue, self2))"
  by (simp add: monitor_cycle_def try_body_polled [OF assms] Let_def split: sum.splits py_exc.splits)

text \<open>An interval that \<^verbatim>\<open>time.sleep\<close> refuses: the iteration reports the error and goes on.\<close>

lemma monitor_cycle_sleep_overflow:
  "sleep_max < poll_interval self \<Longrightarrow>
     monitor_cycle pr e self =
       ([Print (unexpected_error_line ''timestamp too large to convert to C _PyTime_t''),
         Sleep recovery_delay], Continue, self)"
  by (simp add: monitor_cycle_def try_body_def py_sleep_def sleep_max_def)

text \<open>
  No path through an iteration changes the interval, and the remembered state changes only to
  the state that the fetch of this iteration returned, which is then not \<^verbatim>\<open>None\<close>.
\<close>

lemma try_body_frame:
  "try_body pr e self = (out, r, self') \<Longrightarrow>
     poll_interval self' = poll_interval self \<and>
     (previous_state self' = previous_state self \<and>
      previous_inverter_states self' = previous_inverter_states self \<or>
      (\<exists>ivs. snd (get_current_state (client (fetch e))) = Inr (previous_state self', ivs) \<and>
         previous_state self' \<noteq> PNone \<and> previous_inverter_states self' = ivs))"
  by (auto simp: try_body_def py_sleep_def do_fetch_eq Let_def case_prod_beta
      split: sum.splits if_splits)

lemma monitor_cycle_frame:
  "monitor_cycle pr e self = (out, c, self') \<Longrightarrow>
     poll_interval self' = poll_interval self \<and>
     (previous_state self' = previous_state self \<and>
      previous_inverter_states self' = previous_inverter_states self \<or>
      (\<exists>ivs. snd (get_current_state (client (fetch e))) = Inr (previous_state self', ivs) \<and>
         previous_state self' \<noteq> PNone \<and> previous_inverter_states self' = ivs))"
proof -
  assume a: "monitor_cycle pr e self = (out, c, self')"
  obtain o1 r1 s1 where t: "try_body pr e self = (o1, r1, s1)" by (cases "try_body pr e self") auto
  from a t have "s1 = self'"
    by (auto simp: monitor_cycle_def split: sum.splits py_exc.splits)
  with try_body_frame [OF t] show ?thesis by simp
qed

section \<open>The change report\<close>

lemma format_state_change_hashable:
  assumes "hashable old_state" "hashable new_state"
  shows "\<exists>old_info new_info old_icon old_name new_icon new_name.
     describe pr old_state = Inr old_info \<and> describe pr new_state = Inr new_info \<and>
     getitem pr old_info ''icon'' = Inr old_icon \<and> getitem pr old_info ''name'' = Inr old_name \<and>
     getitem pr new_info ''icon'' = Inr new_icon \<and> getitem pr new_info ''name'' = Inr new_name \<and>
     format_state_change pr now old_state new_state old_inverters new_inverters =
       Inr (join nl
         ([report_header (strftime now),
           device_line pr old_icon old_state old_name new_icon new_state new_name] @
          (if old_inverters \<noteq> new_inverters
           then [inverter_line pr old_inverters new_inverters] else [])))"
proof -
  from describe_hashable [OF assms(1)] obtain old_info old_icon old_name where
    o: "describe pr old_state = Inr old_info" "getitem pr old_info ''icon'' = Inr old_icon"
       "getitem pr old_info ''name'' = Inr old_name" by blast
  from describe_hashable [OF assms(2)] obtain new_info new_icon new_name where
    n: "describe pr new_state = Inr new_info" "getitem pr new_info ''icon'' = Inr new_icon"
       "getitem pr new_info ''name'' = Inr new_name" by blast
  from o n show ?thesis
    by (simp add: format_state_change_def py_bind_def Let_def)
qed

lemma format_state_change_unhashable:
  "\<not> hashable old_state \<or> \<not> hashable new_state \<Longrightarrow>
     format_state_change pr now old_state new_state old_inverters new_inverters =
       Inl (Exception (''unhashable type: '' @ [squote] @ ''list'' @ [squote]))"
proof (cases "hashable old_state")
  case False
  then show ?thesis
    by (simp add: format_state_change_def py_bind_def describe_unhashable)
next
  case True
  assume "\<not> hashable old_state \<or> \<not> hashable new_state"
  with True have n: "\<not> hashable new_state" by simp
  from describe_hashable [OF True] obtain old_info where "describe pr old_state = Inr old_info"
    by blast
  with n show ?thesis
    by (simp add: format_state_change_def py_bind_def describe_unhashable)
qed

lemma format_raises_again:
  "format_state_change pr now os ns oi ni = Inl ex \<Longrightarrow>
     format_state_change pr now' os ns oi' ni' = Inl ex"
proof -
  assume a: "format_state_change pr now os ns oi ni = Inl ex"
  have "\<not> hashable os \<or> \<not> hashable ns"
  proof (rule ccontr)
    assume "\<not> (\<not> hashable os \<or> \<not> hashable ns)"
    then have "hashable os" "hashable ns" by simp_all
    from format_state_change_hashable [OF this, of pr now oi ni] a show False by auto
  qed
  from format_state_change_unhashable [OF this, of pr now oi ni]
       format_state_change_unhashable [OF this, of pr now' oi' ni'] a
  show ?thesis by simp
qed

lemma report_begins:
  "format_state_change pr now os ns oi ni = Inr r \<Longrightarrow> \<exists>rest. r = nl @ icon_bell @ rest"
proof -
  assume a: "format_state_change pr now os ns oi ni = Inr r"
  have h: "hashable os \<and> hashable ns"
  proof (rule ccontr)
    assume "\<not> (hashable os \<and> hashable ns)"
    then have "\<not> hashable os \<or> \<not> hashable ns" by simp
    from format_state_change_unhashable [OF this, of pr now oi ni] a show False by simp
  qed
  then have "hashable os" "hashable ns" by simp_all
  from format_state_change_hashable [OF this, of pr now oi ni] a
  show ?thesis by (auto simp: report_header_def)
qed

lemma report_is_no_other_line:
  assumes "format_state_change pr now os ns oi ni = Inr r"
  shows "r \<noteq> unexpected_error_line msg" "r \<noteq> fetch_error_line msg"
    "Print r \<notin> set (fst (deliver sig self))"
proof -
  from report_begins [OF assms] obtain rest where r: "r = nl @ icon_bell @ rest" by blast
  show "r \<noteq> unexpected_error_line msg"
    by (simp add: r unexpected_error_line_def nl_def icon_bell_def icon_cross_def)
  show "r \<noteq> fetch_error_line msg"
    by (simp add: r fetch_error_line_def nl_def icon_bell_def icon_cross_def)
  show "Print r \<notin> set (fst (deliver sig self))"
    by (cases sig) (simp_all add: r deliver_def signal_handler_def nl_def icon_bell_def icon_wave_def)
qed

lemma inverter_line_distinct:
  "inverter_line pr oi ni \<noteq> report_header ts"
  "inverter_line pr oi ni \<noteq> device_line pr a b c d e f"
  by (simp_all add: inverter_line_def report_header_def device_line_def nl_def)

section \<open>The example environments, evaluated\<close>

lemmas example_defs = example_client_def unreachable_client_def example_clock_def quiet_fetch_def
  quiet_cycle_def example_monitor_def

lemma quiet_cycle_sel:
  "signal_in_sleep (quiet_cycle c) = None" "client (fetch (quiet_cycle c)) = c"
  "signal_in_fetch (fetch (quiet_cycle c)) = None" "clock (quiet_cycle c) = example_clock"
  by (simp_all add: quiet_cycle_def quiet_fetch_def)

lemma example_monitor_sel:
  "poll_interval (example_monitor i st ivs) = i" "previous_state (example_monitor i st ivs) = st"
  "previous_inverter_states (example_monitor i st ivs) = ivs" "running (example_monitor i st ivs)"
  by (simp_all add: example_monitor_def)

lemma example_report_eval:
  "format_state_change pr example_clock (PStr ''CS00'') (PStr ''CS02'') (PList [])
     (PList [PStr ''charging'']) = Inr example_report"
  by code_simp

lemma example_with_FCSP:
  "with_FCSP (example_client st ivs) = Inr (st, PList ivs)"
proof -
  have "with_FCSP (example_client st ivs) =
          Inr (dict_get [(''state'', st)] ''state'',
               PList (map (\<lambda>d. dict_get d ''state'') (map (\<lambda>v. [(''state'', v)]) ivs)))"
    by (rule with_FCSP_success) (simp_all add: example_client_def comp_def)
  then show ?thesis by (simp add: dict_get_def comp_def)
qed

lemma example_fetch_eval:
  "get_current_state (example_client st ivs) = ([Connect], Inr (st, PList ivs))"
  "get_current_state (unreachable_client msg) =
     ([Connect, Print (fetch_error_line msg)], Inr (PNone, PNone))"
  by (simp_all add: get_current_state_def example_with_FCSP)
     (simp add: with_FCSP_def unreachable_client_def)

lemma example_cycle_failed:
  "monitor_cycle pr (quiet_cycle (unreachable_client ''timed out''))
     (example_monitor 30 (PStr ''CS00'') (PList [])) =
     ([Sleep 30, Connect, Print (fetch_error_line ''timed out'')], Continue,
      example_monitor 30 (PStr ''CS00'') (PList []))"
proof -
  have "get_current_state (client (fetch (quiet_cycle (unreachable_client ''timed out'')))) =
     ([Connect, Print (fetch_error_line ''timed out'')], Inr (PNone, PNone))"
    by (simp add: quiet_cycle_def quiet_fetch_def example_fetch_eval)
  from monitor_cycle_polled [OF _ _ _ _ this, of "example_monitor 30 (PStr ''CS00'') (PList [])"]
  show ?thesis by (simp add: quiet_cycle_def quiet_fetch_def example_monitor_def sleep_max_def)
qed

lemma example_cycle_changed:
  "monitor_cycle pr (quiet_cycle (example_client (PStr ''CS02'') [PStr ''charging'']))
     (example_monitor 30 (PStr ''CS00'') (PList [])) =
     ([Sleep 30, Connect, Print example_report], Continue,
      example_monitor 30 (PStr ''CS02'') (PList [PStr ''charging'']))"
proof -
  have "get_current_state (client (fetch (quiet_cycle
          (example_client (PStr ''CS02'') [PStr ''charging''])))) =
     ([Connect], Inr (PStr ''CS02'', PList [PStr ''charging'']))"
    by (simp add: quiet_cycle_def quiet_fetch_def example_fetch_eval)
  from monitor_cycle_polled [OF _ _ _ _ this, of "example_monitor 30 (PStr ''CS00'') (PList [])"]
  show ?thesis
    by (simp add: quiet_cycle_def quiet_fetch_def example_monitor_def example_report_eval
        sleep_max_def)
qed

lemma example_cycle_unchanged:
  "monitor_cycle pr (quiet_cycle (example_client (PStr ''CS02'') [PStr ''charging'']))
     (example_monitor 30 (PStr ''CS02'') (PList [PStr ''charging''])) =
     ([Sleep 30, Connect], Continue,
      example_monitor 30 (PStr ''CS02'') (PList [PStr ''charging'']))"
proof -
  have "get_current_state (client (fetch (quiet_cycle
          (example_client (PStr ''CS02'') [PStr ''charging''])))) =
     ([Connect], Inr (PStr ''CS02'', PList [PStr ''charging'']))"
    by (simp add: quiet_cycle_def quiet_fetch_def example_fetch_eval)
  from monitor_cycle_polled [OF _ _ _ _ this,
    of "example_monitor 30 (PStr ''CS02'') (PList [PStr ''charging''])"]
  show ?thesis
    by (simp add: quiet_cycle_def quiet_fetch_def example_monitor_def sleep_max_def)
qed

section \<open>Formatting\<close>

lemma dec_nat_1: "n < 10 \<Longrightarrow> dec_nat n = [digit n]"
  by (simp add: dec_nat.simps)

lemma dec_nat_2: "10 \<le> n \<Longrightarrow> n < 100 \<Longrightarrow> dec_nat n = [digit (n div 10), digit (n mod 10)]"
proof -
  assume a: "10 \<le> n" "n < 100"
  then have "n div 10 < 10" by simp
  then have "dec_nat (n div 10) = [digit (n div 10)]" by (rule dec_nat_1)
  with a show ?thesis by (subst dec_nat.simps) simp
qed

lemma dec_nat_3:
  "100 \<le> n \<Longrightarrow> n < 1000 \<Longrightarrow>
     dec_nat n = [digit (n div 100), digit (n div 10 mod 10), digit (n mod 10)]"
proof -
  assume a: "100 \<le> n" "n < 1000"
  then have "10 \<le> n div 10" "n div 10 < 100" by simp_all
  then have "dec_nat (n div 10) = [digit (n div 10 div 10), digit (n div 10 mod 10)]"
    by (rule dec_nat_2)
  moreover have "n div 10 div 10 = n div 100" by (simp add: div_mult2_eq [symmetric])
  ultimately show ?thesis using a by (subst dec_nat.simps) simp
qed

lemma dec_nat_4:
  "1000 \<le> n \<Longrightarrow> n < 10000 \<Longrightarrow>
     dec_nat n = [digit (n div 1000), digit (n div 100 mod 10), digit (n div 10 mod 10),
                  digit (n mod 10)]"
proof -
  assume a: "1000 \<le> n" "n < 10000"
  then have "100 \<le> n div 10" "n div 10 < 1000" by simp_all
  then have "dec_nat (n div 10) =
      [digit (n div 10 div 100), digit (n div 10 div 10 mod 10), digit (n div 10 mod 10)]"
    by (rule dec_nat_3)
  moreover have "n div 10 div 100 = n div 1000" "n div 10 div 10 = n div 100"
    by (simp_all add: div_mult2_eq [symmetric])
  ultimately show ?thesis using a by (subst dec_nat.simps) simp
qed

lemma digit_0: "digit 0 = CHR ''0''"
  by code_simp

lemma pad2_digits: "n < 100 \<Longrightarrow> pad2 n = [digit (n div 10), digit (n mod 10)]"
  by (cases "n < 10") (simp_all add: pad2_def dec_nat_1 dec_nat_2 digit_0)

lemma zeros: "replicate 3 c = [c, c, c]" "replicate 2 c = [c, c]"
  by (simp_all add: numeral_3_eq_3 numeral_2_eq_2)

lemma pad4_digits:
  "n < 10000 \<Longrightarrow>
     pad4 n = [digit (n div 1000), digit (n div 100 mod 10), digit (n div 10 mod 10),
               digit (n mod 10)]"
proof -
  assume a: "n < 10000"
  consider "n < 10" | "10 \<le> n" "n < 100" | "100 \<le> n" "n < 1000" | "1000 \<le> n"
    by linarith
  then show ?thesis
  proof cases
    case 1
    then show ?thesis by (simp add: pad4_def dec_nat_1 digit_0 zeros)
  next
    case 2
    then show ?thesis by (simp add: pad4_def dec_nat_2 digit_0 zeros)
  next
    case 3
    then show ?thesis by (simp add: pad4_def dec_nat_3 digit_0 zeros)
  next
    case 4
    with a show ?thesis by (simp add: pad4_def dec_nat_4 zeros)
  qed
qed

text \<open>
  Claim C5, amended. When both states can be hashed (each a \<^verbatim>\<open>str\<close> or \<^verbatim>\<open>None\<close>),
  \<open>format_state_change\<close> returns this text: an empty line; the header with the bell and the
  timestamp in brackets; the device line with icon, state and name of the old descriptor, an
  arrow, and icon, state and name of the new descriptor (a state is written as its own
  characters, an absent one as \<^verbatim>\<open>None\<close>); and, exactly when the two inverter
  values differ, the inverter line with the old value, an arrow and the new value. The
  timestamp of a date with four-digit year is \<^verbatim>\<open>YYYY-MM-DD HH:MM:SS\<close>. When one of the states is
  a list, \<open>format_state_change\<close> raises \<^verbatim>\<open>TypeError\<close> and returns no report.
\<close>

theorem format_state_change_text:
  "(hashable old_state \<and> hashable new_state \<longrightarrow>
      (\<exists>old_info new_info old_icon old_name new_icon new_name.
         describe pr old_state = Inr old_info \<and> describe pr new_state = Inr new_info \<and>
         getitem pr old_info ''icon'' = Inr old_icon \<and>
         getitem pr old_info ''name'' = Inr old_name \<and>
         getitem pr new_info ''icon'' = Inr new_icon \<and>
         getitem pr new_info ''name'' = Inr new_name \<and>
         format_state_change pr now old_state new_state old_inverters new_inverters =
           Inr ([CHR 0x0A] @ [CHR 0xF0, CHR 0x9F, CHR 0x94, CHR 0x94] @ '' ['' @ strftime now @
                ''] STATE CHANGE DETECTED!'' @ [CHR 0x0A] @
                ''   Device: '' @ old_icon @ '' '' @
                (case old_state of PStr code \<Rightarrow> code | _ \<Rightarrow> ''None'') @
                '' ('' @ old_name @ '') '' @ [CHR 0xE2, CHR 0x86, CHR 0x92] @ '' '' @ new_icon @ '' '' @
                (case new_state of PStr code \<Rightarrow> code | _ \<Rightarrow> ''None'') @
                '' ('' @ new_name @ '')'' @
                (if old_inverters \<noteq> new_inverters
                 then [CHR 0x0A] @ ''   Inverters: '' @ py_str pr old_inverters @ '' '' @
                      [CHR 0xE2, CHR 0x86, CHR 0x92] @ '' '' @ py_str pr new_inverters
                 else [])))) \<and>
   (year now < 10000 \<and> month now < 100 \<and> day now < 100 \<and> hour now < 100 \<and>
    minute now < 100 \<and> second now < 100 \<longrightarrow>
      strftime now =
        [digit (year now div 1000), digit (year now div 100 mod 10),
         digit (year now div 10 mod 10), digit (year now mod 10), CHR ''-'',
         digit (month now div 10), digit (month now mod 10), CHR ''-'',
         digit (day now div 10), digit (day now mod 10), CHR '' '',
         digit (hour now div 10), digit (hour now mod 10), CHR '':'',
         digit (minute now div 10), digit (minute now mod 10), CHR '':'',
         digit (second now div 10), digit (second now mod 10)]) \<and>
   (\<not> hashable old_state \<or> \<not> hashable new_state \<longrightarrow>
      format_state_change pr now old_state new_state old_inverters new_inverters =
        Inl (Exception (''unhashable type: '' @ [CHR 0x27] @ ''list'' @ [CHR 0x27])))"
proof (intro conjI impI)
  assume "hashable old_state \<and> hashable new_state"
  then have h: "hashable old_state" "hashable new_state" by simp_all
  from format_state_change_hashable [OF h, of pr now old_inverters new_inverters]
  obtain old_info new_info old_icon old_name new_icon new_name where
    f: "describe pr old_state = Inr old_info" "describe pr new_state = Inr new_info"
       "getitem pr old_info ''icon'' = Inr old_icon" "getitem pr old_info ''name'' = Inr old_name"
       "getitem pr new_info ''icon'' = Inr new_icon" "getitem pr new_info ''name'' = Inr new_name"
    and r: "format_state_change pr now old_state new_state old_inverters new_inverters =
          Inr (join nl
            ([report_header (strftime now),
              device_line pr old_icon old_state old_name new_icon new_state new_name] @
             (if old_inverters \<noteq> new_inverters
              then [inverter_line pr old_inverters new_inverters] else [])))"
    by blast
  from h(1) have s1:
    "py_str pr old_state = (case old_state of PStr code \<Rightarrow> code | _ \<Rightarrow> ''None'')"
    by (cases old_state) (simp_all add: py_str_def)
  from h(2) have s2:
    "py_str pr new_state = (case new_state of PStr code \<Rightarrow> code | _ \<Rightarrow> ''None'')"
    by (cases new_state) (simp_all add: py_str_def)
  note s = s1 s2
  have "join nl
            ([report_header (strftime now),
              device_line pr old_icon old_state old_name new_icon new_state new_name] @
             (if old_inverters \<noteq> new_inverters
              then [inverter_line pr old_inverters new_inverters] else [])) =
           ([CHR 0x0A] @ [CHR 0xF0, CHR 0x9F, CHR 0x94, CHR 0x94] @ '' ['' @ strftime now @
                ''] STATE CHANGE DETECTED!'' @ [CHR 0x0A] @
                ''   Device: '' @ old_icon @ '' '' @
                (case old_state of PStr code \<Rightarrow> code | _ \<Rightarrow> ''None'') @
                '' ('' @ old_name @ '') '' @ [CHR 0xE2, CHR 0x86, CHR 0x92] @ '' '' @ new_icon @ '' '' @
                (case new_state of PStr code \<Rightarrow> code | _ \<Rightarrow> ''None'') @
                '' ('' @ new_name @ '')'' @
                (if old_inverters \<noteq> new_inverters
                 then [CHR 0x0A] @ ''   Inverters: '' @ py_str pr old_inverters @ '' '' @
                      [CHR 0xE2, CHR 0x86, CHR 0x92] @ '' '' @ py_str pr new_inverters
                 else []))"
    by (simp add: report_header_def device_line_def inverter_line_def nl_def icon_bell_def
        icon_arrow_def s)
  with r have "format_state_change pr now old_state new_state old_inverters new_inverters =
           Inr ([CHR 0x0A] @ [CHR 0xF0, CHR 0x9F, CHR 0x94, CHR 0x94] @ '' ['' @ strftime now @
                ''] STATE CHANGE DETECTED!'' @ [CHR 0x0A] @
                ''   Device: '' @ old_icon @ '' '' @
                (case old_state of PStr code \<Rightarrow> code | _ \<Rightarrow> ''None'') @
                '' ('' @ old_name @ '') '' @ [CHR 0xE2, CHR 0x86, CHR 0x92] @ '' '' @ new_icon @ '' '' @
                (case new_state of PStr code \<Rightarrow> code | _ \<Rightarrow> ''None'') @
                '' ('' @ new_name @ '')'' @
                (if old_inverters \<noteq> new_inverters
                 then [CHR 0x0A] @ ''   Inverters: '' @ py_str pr old_inverters @ '' '' @
                      [CHR 0xE2, CHR 0x86, CHR 0x92] @ '' '' @ py_str pr new_inverters
                 else []))"
    by (simp only:)
  with f show "\<exists>old_info new_info old_icon old_name new_icon new_name.
         describe pr old_state = Inr old_info \<and> describe pr new_state = Inr new_info \<and>
         getitem pr old_info ''icon'' = Inr old_icon \<and>
         getitem pr old_info ''name'' = Inr old_name \<and>
         getitem pr new_info ''icon'' = Inr new_icon \<and>
         getitem pr new_info ''name'' = Inr new_name \<and>
         format_state_change pr now old_state new_state old_inverters new_inverters =
           Inr ([CHR 0x0A] @ [CHR 0xF0, CHR 0x9F, CHR 0x94, CHR 0x94] @ '' ['' @ strftime now @
                ''] STATE CHANGE DETECTED!'' @ [CHR 0x0A] @
                ''   Device: '' @ old_icon @ '' '' @
                (case old_state of PStr code \<Rightarrow> code | _ \<Rightarrow> ''None'') @
                '' ('' @ old_name @ '') '' @ [CHR 0xE2, CHR 0x86, CHR 0x92] @ '' '' @ new_icon @ '' '' @
                (case new_state of PStr code \<Rightarrow> code | _ \<Rightarrow> ''None'') @
                '' ('' @ new_name @ '')'' @
                (if old_inverters \<noteq> new_inverters
                 then [CHR 0x0A] @ ''   Inverters: '' @ py_str pr old_inverters @ '' '' @
                      [CHR 0xE2, CHR 0x86, CHR 0x92] @ '' '' @ py_str pr new_inverters
                 else []))"
    by blast
next
  assume "year now < 10000 \<and> month now < 100 \<and> day now < 100 \<and> hour now < 100 \<and>
    minute now < 100 \<and> second now < 100"
  then show "strftime now =
        [digit (year now div 1000), digit (year now div 100 mod 10),
         digit (year now div 10 mod 10), digit (year now mod 10), CHR ''-'',
         digit (month now div 10), digit (month now mod 10), CHR ''-'',
         digit (day now div 10), digit (day now mod 10), CHR '' '',
         digit (hour now div 10), digit (hour now mod 10), CHR '':'',
         digit (minute now div 10), digit (minute now mod 10), CHR '':'',
         digit (second now div 10), digit (second now mod 10)]"
    by (simp add: strftime_def pad2_digits pad4_digits)
next
  assume "\<not> hashable old_state \<or> \<not> hashable new_state"
  from format_state_change_unhashable [OF this, of pr now old_inverters new_inverters]
  show "format_state_change pr now old_state new_state old_inverters new_inverters =
        Inl (Exception (''unhashable type: '' @ [CHR 0x27] @ ''list'' @ [CHR 0x27]))"
    by (simp add: squote_def)
qed

lemma example_strftime: "strftime example_clock = ''2024-03-09 07:05:00''"
  by code_simp

lemma example_py_str:
  "py_str example_printable (PList []) = ''[]''"
  "py_str example_printable (PList [PStr ''charging'']) =
     ''['' @ [CHR 0x27] @ ''charging'' @ [CHR 0x27] @ '']''"
  by code_simp+

theorem format_state_change_text_witness:
  "hashable (PStr ''CS00'') \<and> hashable (PStr ''CS02'') \<and>
   format_state_change example_printable example_clock (PStr ''CS00'') (PStr ''CS02'')
     (PList []) (PList [PStr ''charging'']) =
     Inr ([CHR 0x0A] @ [CHR 0xF0, CHR 0x9F, CHR 0x94, CHR 0x94] @ '' [2024-03-09 07:05:00] STATE CHANGE DETECTED!'' @
          [CHR 0x0A] @ ''   Device: '' @ [CHR 0xF0, CHR 0x9F, CHR 0x9F, CHR 0xA2] @ '' CS00 (Available) '' @
          [CHR 0xE2, CHR 0x86, CHR 0x92] @ '' '' @ [CHR 0xF0, CHR 0x9F, CHR 0x94, CHR 0x8B] @ '' CS02 (Charging)'' @
          [CHR 0x0A] @ ''   Inverters: [] '' @ [CHR 0xE2, CHR 0x86, CHR 0x92] @
          '' ['' @ [CHR 0x27] @ ''charging'' @ [CHR 0x27] @ '']'')"
proof -
  have h: "hashable (PStr ''CS00'') \<and> hashable (PStr ''CS02'')"
    by simp
  from format_state_change_text
    [of "PStr ''CS00''" "PStr ''CS02''" example_printable example_clock "PList []"
        "PList [PStr ''charging'']", THEN conjunct1, rule_format, OF h]
  obtain old_info new_info old_icon old_name new_icon new_name where
    d: "describe example_printable (PStr ''CS00'') = Inr old_info"
       "describe example_printable (PStr ''CS02'') = Inr new_info"
    and g: "getitem example_printable old_info ''icon'' = Inr old_icon"
       "getitem example_printable old_info ''name'' = Inr old_name"
       "getitem example_printable new_info ''icon'' = Inr new_icon"
       "getitem example_printable new_info ''name'' = Inr new_name"
    and r: "format_state_change example_printable example_clock (PStr ''CS00'') (PStr ''CS02'')
              (PList []) (PList [PStr ''charging'']) =
            Inr ([CHR 0x0A] @ [CHR 0xF0, CHR 0x9F, CHR 0x94, CHR 0x94] @ '' ['' @ strftime example_clock @
                  ''] STATE CHANGE DETECTED!'' @ [CHR 0x0A] @
                  ''   Device: '' @ old_icon @ '' '' @
                  (case PStr ''CS00'' of PStr code \<Rightarrow> code | _ \<Rightarrow> ''None'') @
                  '' ('' @ old_name @ '') '' @ [CHR 0xE2, CHR 0x86, CHR 0x92] @ '' '' @ new_icon @ '' '' @
                  (case PStr ''CS02'' of PStr code \<Rightarrow> code | _ \<Rightarrow> ''None'') @
                  '' ('' @ new_name @ '')'' @
                  (if PList [] \<noteq> PList [PStr ''charging'']
                   then [CHR 0x0A] @ ''   Inverters: '' @ py_str example_printable (PList []) @ '' '' @
                        [CHR 0xE2, CHR 0x86, CHR 0x92] @ '' '' @ py_str example_printable (PList [PStr ''charging''])
                   else []))"
    by blast
  from d have i: "old_info = [(''name'', ''Available''),
                  (''description'', ''No vehicle connected - Ready for charging''),
                  (''icon'', icon_green)]"
      "new_info = [(''name'', ''Charging''),
                  (''description'', ''Vehicle connected and actively charging''),
                  (''icon'', icon_battery)]"
    by (simp_all add: describe_def DEVICE_STATES_def)
  from g have f: "old_icon = [CHR 0xF0, CHR 0x9F, CHR 0x9F, CHR 0xA2]" "old_name = ''Available''"
    "new_icon = [CHR 0xF0, CHR 0x9F, CHR 0x94, CHR 0x8B]" "new_name = ''Charging''"
    by (simp_all add: i getitem_def icon_green_def icon_battery_def)
  from r have "format_state_change example_printable example_clock (PStr ''CS00'')
     (PStr ''CS02'') (PList []) (PList [PStr ''charging'']) =
     Inr ([CHR 0x0A] @ [CHR 0xF0, CHR 0x9F, CHR 0x94, CHR 0x94] @ '' [2024-03-09 07:05:00] STATE CHANGE DETECTED!'' @
          [CHR 0x0A] @ ''   Device: '' @ [CHR 0xF0, CHR 0x9F, CHR 0x9F, CHR 0xA2] @ '' CS00 (Available) '' @
          [CHR 0xE2, CHR 0x86, CHR 0x92] @ '' '' @ [CHR 0xF0, CHR 0x9F, CHR 0x94, CHR 0x8B] @ '' CS02 (Charging)'' @
          [CHR 0x0A] @ ''   Inverters: [] '' @ [CHR 0xE2, CHR 0x86, CHR 0x92] @
          '' ['' @ [CHR 0x27] @ ''charging'' @ [CHR 0x27] @ '']'')"
    by (simp add: f example_strftime example_py_str)
  with h show ?thesis by (simp only: simp_thms)
qed

text \<open>
  Claim C5 as stated fails: with a list as the new state \<open>format_state_change\<close> returns no
  report; it raises.
\<close>

theorem format_state_change_list_counterexample:
  "format_state_change example_printable example_clock (PStr ''CS00'') (PList []) (PList [])
     (PList []) = Inl (Exception (''unhashable type: '' @ [CHR 0x27] @ ''list'' @ [CHR 0x27]))"
  by (simp add: format_state_change_def describe_def DEVICE_STATES_def py_bind_def squote_def)

section \<open>Change detection\<close>

text \<open>
  Claim C2. Two polls in consecutive iterations both succeed and return the same device state
  and the same inverter list. Then nothing printed in the second iteration is a change report
  (no text that \<open>format_state_change\<close> can return), and \<open>previous_state\<close> and
  \<open>previous_inverter_states\<close> are after the second iteration what they were before it.
\<close>

theorem unchanged_poll_is_silent:
  assumes "running self" "0 \<le> poll_interval self" "signal_in_sleep e1 = None"
    and "with_FCSP (client (fetch e1)) = Inr (cs, ci)" "cs \<noteq> PNone"
    and "monitor_cycle pr e1 self = (out1, c1, self1)"
    and "running self1" "signal_in_sleep e2 = None"
    and "with_FCSP (client (fetch e2)) = Inr (cs, ci)"
    and "monitor_cycle pr e2 self1 = (out2, c2, self2)"
  shows "(\<forall>table now os ns oi ni r.
            format_state_change table now os ns oi ni = Inr r \<longrightarrow> Print r \<notin> set out2) \<and>
         previous_state self2 = previous_state self1 \<and>
         previous_inverter_states self2 = previous_inverter_states self1"
proof (cases "poll_interval self \<le> sleep_max")
  case False
  from monitor_cycle_frame [OF assms(6)] False
  have "sleep_max < poll_interval self1" by simp
  from monitor_cycle_sleep_overflow [OF this, of pr e2] assms(10)
  have "out2 = [Print (unexpected_error_line ''timestamp too large to convert to C _PyTime_t''),
                Sleep recovery_delay]" "self2 = self1"
    by simp_all
  then show ?thesis
    by (auto dest: report_is_no_other_line)
next
  case True
  note g1 = get_current_state_success [OF assms(4)]
  note g2 = get_current_state_success [OF assms(9)]
  from monitor_cycle_frame [OF assms(6)]
  have p1: "0 \<le> poll_interval self1" "poll_interval self1 \<le> sleep_max"
    using assms(2) True by simp_all
  note step1 = monitor_cycle_polled [OF assms(1,2) True assms(3) g1]
  note step2 = monitor_cycle_polled [OF assms(7) p1 assms(8) g2]
  let ?sig = "fst (deliver (signal_in_fetch (fetch e2)) self1)"
  let ?quiet = "Sleep (poll_interval self1) # Connect # ?sig"
  have "out2 = ?quiet \<and> previous_state self2 = previous_state self1 \<and>
          previous_inverter_states self2 = previous_inverter_states self1 \<or>
        (\<exists>msg. out2 = ?quiet @ [Print (unexpected_error_line msg), Sleep recovery_delay]) \<and>
          previous_state self2 = previous_state self1 \<and>
          previous_inverter_states self2 = previous_inverter_states self1"
  proof (cases "cs = previous_state self \<and> ci = previous_inverter_states self")
    case True
    with step1 assms(5,6) have "previous_state self1 = cs" "previous_inverter_states self1 = ci"
      by (auto simp: Let_def)
    with step2 assms(5,10) show ?thesis by (auto simp: Let_def)
  next
    case False
    show ?thesis
    proof (cases "format_state_change pr (clock e1) (previous_state self) cs
                    (previous_inverter_states self) ci")
      case (Inr msg)
      with False step1 assms(5,6)
      have "previous_state self1 = cs" "previous_inverter_states self1 = ci"
        by (auto simp: Let_def)
      with step2 assms(5,10) show ?thesis by (auto simp: Let_def)
    next
      case (Inl ex)
      with format_never_interrupts obtain m where ex: "ex = Exception m"
        by (cases ex) auto
      from Inl False step1 assms(5,6) ex
      have same: "previous_state self1 = previous_state self"
        "previous_inverter_states self1 = previous_inverter_states self"
        by (auto simp: Let_def)
      from format_raises_again [OF Inl]
      have "format_state_change pr (clock e2) (previous_state self1) cs
              (previous_inverter_states self1) ci = Inl (Exception m)"
        by (simp add: same ex)
      with False same step2 assms(5,10) show ?thesis by (auto simp: Let_def)
    qed
  qed
  then show ?thesis
    by (auto dest: report_is_no_other_line)
qed

theorem unchanged_poll_is_silent_witness:
  "with_FCSP (client (fetch (quiet_cycle (example_client (PStr ''CS02'') [PStr ''charging''])))) =
     Inr (PStr ''CS02'', PList [PStr ''charging'']) \<and>
   monitor_cycle example_printable (quiet_cycle (example_client (PStr ''CS02'') [PStr ''charging'']))
     (example_monitor 30 (PStr ''CS00'') (PList [])) =
     ([Sleep 30, Connect, Print example_report], Continue,
      example_monitor 30 (PStr ''CS02'') (PList [PStr ''charging''])) \<and>
   monitor_cycle example_printable (quiet_cycle (example_client (PStr ''CS02'') [PStr ''charging'']))
     (example_monitor 30 (PStr ''CS02'') (PList [PStr ''charging''])) =
     ([Sleep 30, Connect], Continue,
      example_monitor 30 (PStr ''CS02'') (PList [PStr ''charging''])) \<and>
   Print example_report \<notin> set [Sleep 30, Connect]"
  using unchanged_poll_is_silent
    [of "example_monitor 30 (PStr ''CS00'') (PList [])"
        "quiet_cycle (example_client (PStr ''CS02'') [PStr ''charging''])"
        "PStr ''CS02''" "PList [PStr ''charging'']" example_printable
        "[Sleep 30, Connect, Print example_report]" Continue
        "example_monitor 30 (PStr ''CS02'') (PList [PStr ''charging''])"
        "quiet_cycle (example_client (PStr ''CS02'') [PStr ''charging''])"
        "[Sleep 30, Connect]" Continue
        "example_monitor 30 (PStr ''CS02'') (PList [PStr ''charging''])"]
  by (simp add: example_cycle_changed example_cycle_unchanged quiet_cycle_sel example_monitor_sel
        example_with_FCSP example_report_eval)





section \<open>The running loop\<close>

lemma monitor_start_present:
  "monitor_start pr fe self0 = (out, Inr True, self) \<Longrightarrow> previous_state self \<noteq> PNone"
  by (auto simp: monitor_start_def do_fetch_eq Let_def split: sum.splits if_splits)

lemma monitor_cycle_present:
  "previous_state s \<noteq> PNone \<Longrightarrow> previous_state (snd (snd (monitor_cycle pr e s))) \<noteq> PNone"
proof -
  assume p: "previous_state s \<noteq> PNone"
  obtain out c s' where m: "monitor_cycle pr e s = (out, c, s')"
    by (cases "monitor_cycle pr e s") auto
  from monitor_cycle_frame [OF m] p m show ?thesis by auto
qed

lemma monitor_loop_present:
  "previous_state self \<noteq> PNone \<Longrightarrow>
     \<forall>s \<in> set (snd (snd (monitor_loop pr es self))). previous_state s \<noteq> PNone"
proof (induction es arbitrary: self)
  case Nil
  then show ?case by simp
next
  case (Cons e es)
  obtain out c s' where m: "monitor_cycle pr e self = (out, c, s')"
    by (cases "monitor_cycle pr e self") auto
  from monitor_cycle_present [OF Cons.prems, of pr e] m have s': "previous_state s' \<noteq> PNone"
    by simp
  show ?case
  proof (cases "running self")
    case False
    then show ?thesis by simp
  next
    case True
    show ?thesis
    proof (cases c)
      case Break
      with True m s' show ?thesis by simp
    next
      case Continue
      with True m s' Cons.IH [OF s'] show ?thesis
        by (simp add: case_prod_beta)
    qed
  qed
qed

lemma example_start:
  "monitor_start pr (quiet_fetch (example_client (PStr ''CS00'') []))
     \<lparr>poll_interval = 30, previous_state = PNone, previous_inverter_states = PNone,
      running = False\<rparr> =
     (banner 30 @
      [Connect,
       Print (icon_chart @ '' Initial state: '' @ icon_green @ '' CS00 - Available''),
       Print (icon_cycle @ '' Starting monitoring loop...'' @ nl)],
      Inr True, example_monitor 30 (PStr ''CS00'') (PList []))"
  by (simp add: monitor_start_def do_fetch_eq quiet_fetch_def example_fetch_eval describe_def
      DEVICE_STATES_def getitem_def py_bind_def py_str_def example_monitor_def)

lemma example_loop:
  "monitor_loop pr [quiet_cycle (unreachable_client ''timed out''),
                 quiet_cycle (example_client (PStr ''CS02'') [PStr ''charging''])]
     (example_monitor 30 (PStr ''CS00'') (PList [])) =
     ([Sleep 30, Connect, Print (fetch_error_line ''timed out''),
       Sleep 30, Connect, Print example_report],
      False,
      [example_monitor 30 (PStr ''CS00'') (PList []),
       example_monitor 30 (PStr ''CS02'') (PList [PStr ''charging''])])"
  by (simp add: example_cycle_failed example_cycle_changed example_monitor_sel)

text \<open>
  Claim C4. When the start of \<open>monitor\<close> reaches the loop, \<open>previous_state\<close> is not \<^verbatim>\<open>None\<close>;
  no iteration, whatever happens in it, turns a \<open>previous_state\<close> that is not \<^verbatim>\<open>None\<close> into
  \<^verbatim>\<open>None\<close>; and so after every iteration of the loop, over every schedule, \<open>previous_state\<close>
  is not \<^verbatim>\<open>None\<close>.
\<close>

theorem previous_state_never_absent:
  "monitor_start pr fe self0 = (out, Inr True, self) \<Longrightarrow>
     previous_state self \<noteq> PNone \<and>
     (\<forall>e s. previous_state s \<noteq> PNone \<longrightarrow>
        previous_state (snd (snd (monitor_cycle pr e s))) \<noteq> PNone) \<and>
     (\<forall>s \<in> set (snd (snd (monitor_loop pr es self))). previous_state s \<noteq> PNone)"
proof -
  assume a: "monitor_start pr fe self0 = (out, Inr True, self)"
  note p = monitor_start_present [OF a]
  from p monitor_loop_present [OF p, of pr es] monitor_cycle_present show ?thesis by blast
qed

theorem previous_state_never_absent_witness:
  "monitor_start example_printable (quiet_fetch (example_client (PStr ''CS00'') []))
     \<lparr>poll_interval = 30, previous_state = PNone, previous_inverter_states = PNone,
      running = False\<rparr> =
     (banner 30 @
      [Connect,
       Print (icon_chart @ '' Initial state: '' @ icon_green @ '' CS00 - Available''),
       Print (icon_cycle @ '' Starting monitoring loop...'' @ nl)],
      Inr True, example_monitor 30 (PStr ''CS00'') (PList [])) \<and>
   map previous_state
     (snd (snd (monitor_loop example_printable [quiet_cycle (unreachable_client ''timed out''),
                              quiet_cycle (example_client (PStr ''CS02'') [PStr ''charging''])]
                  (example_monitor 30 (PStr ''CS00'') (PList []))))) =
     [PStr ''CS00'', PStr ''CS02''] \<and>
   PStr ''CS00'' \<noteq> PNone \<and> PStr ''CS02'' \<noteq> PNone"
  using previous_state_never_absent
    [of example_printable "quiet_fetch (example_client (PStr ''CS00'') [])"
        "\<lparr>poll_interval = 30, previous_state = PNone, previous_inverter_states = PNone,
          running = False\<rparr>"
        "banner 30 @
          [Connect,
           Print (icon_chart @ '' Initial state: '' @ icon_green @ '' CS00 - Available''),
           Print (icon_cycle @ '' Starting monitoring loop...'' @ nl)]"
        "example_monitor 30 (PStr ''CS00'') (PList [])"
        "[quiet_cycle (unreachable_client ''timed out''),
          quiet_cycle (example_client (PStr ''CS02'') [PStr ''charging''])]"]
  by (simp add: example_start example_loop example_monitor_sel del: monitor_loop.simps)

lemma example_try_body_unhashable:
  assumes "0 \<le> i" "i \<le> sleep_max"
  shows "try_body pr (quiet_cycle (example_client (PList []) []))
     (example_monitor i (PStr ''CS00'') (PList [])) =
     ([Sleep i, Connect],
      Inl (Exception (''unhashable type: '' @ [squote] @ ''list'' @ [squote])),
      example_monitor i (PStr ''CS00'') (PList []))"
proof -
  have g: "get_current_state (client (fetch (quiet_cycle (example_client (PList []) [])))) =
     ([Connect], Inr (PList [], PList []))"
    by (simp add: quiet_cycle_sel example_fetch_eval)
  from assms try_body_polled [OF _ _ _ _ g, of "example_monitor i (PStr ''CS00'') (PList [])"]
  show ?thesis
    by (simp add: quiet_cycle_sel example_monitor_sel format_state_change_unhashable)
qed

text \<open>
  Claim C8, amended. When an error leaves the \<^verbatim>\<open>try\<close> body, the iteration prints the error,
  sleeps for the recovery delay and continues: the loop goes on with the rest of the schedule
  and \<open>previous_state\<close> and \<open>previous_inverter_states\<close> are unchanged. The recovery delay is
  the constant 5 whatever the poll interval, so it is shorter than the poll interval exactly
  when the poll interval is greater than 5.
\<close>

theorem backoff_resumes_loop:
  assumes "running self" "try_body pr e self = (out, Inl (Exception msg), self')"
  shows "monitor_cycle pr e self =
           (out @ [Print (unexpected_error_line msg), Sleep recovery_delay], Continue, self') \<and>
         monitor_loop pr (e # es) self =
           (out @ [Print (unexpected_error_line msg), Sleep recovery_delay] @
              fst (monitor_loop pr es self'),
            fst (snd (monitor_loop pr es self')), self' # snd (snd (monitor_loop pr es self'))) \<and>
         previous_state self' = previous_state self \<and>
         previous_inverter_states self' = previous_inverter_states self \<and>
         recovery_delay = 5 \<and>
         (recovery_delay < poll_interval self \<longleftrightarrow> 5 < poll_interval self)"
proof -
  have c: "monitor_cycle pr e self =
           (out @ [Print (unexpected_error_line msg), Sleep recovery_delay], Continue, self')"
    using assms(2) by (simp add: monitor_cycle_def)
  have "previous_state self' = previous_state self \<and>
        previous_inverter_states self' = previous_inverter_states self"
    using assms(2)
    by (auto simp: try_body_def py_sleep_def do_fetch_eq Let_def case_prod_beta
        split: sum.splits if_splits)
  with c assms(1) show ?thesis
    by (simp add: case_prod_beta recovery_delay_def)
qed

theorem backoff_resumes_loop_witness:
  "running (example_monitor 30 (PStr ''CS00'') (PList [])) \<and>
   try_body example_printable (quiet_cycle (example_client (PList []) []))
     (example_monitor 30 (PStr ''CS00'') (PList [])) =
     ([Sleep 30, Connect],
      Inl (Exception (''unhashable type: '' @ [squote] @ ''list'' @ [squote])),
      example_monitor 30 (PStr ''CS00'') (PList [])) \<and>
   monitor_cycle example_printable (quiet_cycle (example_client (PList []) []))
     (example_monitor 30 (PStr ''CS00'') (PList [])) =
     ([Sleep 30, Connect,
       Print (unexpected_error_line (''unhashable type: '' @ [squote] @ ''list'' @ [squote])),
       Sleep 5],
      Continue, example_monitor 30 (PStr ''CS00'') (PList [])) \<and>
   recovery_delay < poll_interval (example_monitor 30 (PStr ''CS00'') (PList []))"
  using backoff_resumes_loop
    [of "example_monitor 30 (PStr ''CS00'') (PList [])" example_printable
        "quiet_cycle (example_client (PList []) [])" "[Sleep 30, Connect]"
        "''unhashable type: '' @ [squote] @ ''list'' @ [squote]"
        "example_monitor 30 (PStr ''CS00'') (PList [])"]
  by (simp add: example_try_body_unhashable example_monitor_sel sleep_max_def)

text \<open>
  Claim C8 as stated fails: with the valid poll interval 3 the recovery delay, 5, is not
  shorter than the poll interval.
\<close>

theorem recovery_delay_not_shorter_counterexample:
  "(0::int) < poll_interval (example_monitor 3 (PStr ''CS00'') (PList [])) \<and>
   monitor_cycle example_printable (quiet_cycle (example_client (PList []) []))
     (example_monitor 3 (PStr ''CS00'') (PList [])) =
     ([Sleep 3, Connect,
       Print (unexpected_error_line (''unhashable type: '' @ [squote] @ ''list'' @ [squote])),
       Sleep 5],
      Continue, example_monitor 3 (PStr ''CS00'') (PList [])) \<and>
   \<not> recovery_delay < poll_interval (example_monitor 3 (PStr ''CS00'') (PList []))"
  by (simp add: monitor_cycle_def example_try_body_unhashable example_monitor_sel
      recovery_delay_def sleep_max_def)

section \<open>Startup\<close>

lemma example_init:
  "init i None None = Inr \<lparr>poll_interval = i, previous_state = PNone,
      previous_inverter_states = PNone, running = False\<rparr>"
  by (simp add: init_def)

text \<open>
  Claim C1, amended. When construction succeeds and the initial fetch returns an absent device
  state, \<open>main\<close> ends with exit status 0 whatever the schedule: the effects are the banner,
  the one fetch (with the acknowledgement of a signal, if one arrived) and the failure line;
  there is exactly one fetch and no sleep, so no poll cycle ran.
\<close>

theorem initial_fetch_failure_exits_zero:
  assumes "init interval sigint_reg sigterm_reg = Inr self"
    and "get_current_state (client fe) = (f_out, Inr (PNone, ivs))"
  shows "main pr interval sigint_reg sigterm_reg fe es =
           (banner interval @ f_out @
              fst (deliver (signal_in_fetch fe) (self\<lparr>running := True\<rparr>)) @
              [Print initial_failure_line], Exit 0) \<and>
         length (filter (\<lambda>x. x = Connect)
                   (fst (main pr interval sigint_reg sigterm_reg fe es))) = 1 \<and>
         (\<forall>n. Sleep n \<notin> set (fst (main pr interval sigint_reg sigterm_reg fe es)))"
proof -
  from assms(1) have i: "poll_interval self = interval"
    by (auto simp: init_def Let_def split: option.splits)
  have m: "main pr interval sigint_reg sigterm_reg fe es =
           (banner interval @ f_out @
              fst (deliver (signal_in_fetch fe) (self\<lparr>running := True\<rparr>)) @
              [Print initial_failure_line], Exit 0)"
    using assms i
    by (simp add: main_def monitor_def monitor_start_def do_fetch_eq Let_def)
  from assms(2) have f: "f_out = [Connect] \<or> (\<exists>msg. f_out = [Connect, Print msg])"
    by (auto simp: get_current_state_def split: sum.splits py_exc.splits)
  have d: "fst (deliver (signal_in_fetch fe) (self\<lparr>running := True\<rparr>)) = [] \<or>
           (\<exists>t. fst (deliver (signal_in_fetch fe) (self\<lparr>running := True\<rparr>)) = [Print t])"
    by (cases "signal_in_fetch fe") (simp_all add: deliver_def signal_handler_def)
  from f d show ?thesis
    unfolding m by (auto simp: banner_def)
qed

theorem initial_fetch_failure_exits_zero_witness:
  "init 30 None None = Inr \<lparr>poll_interval = 30, previous_state = PNone,
      previous_inverter_states = PNone, running = False\<rparr> \<and>
   get_current_state (client (quiet_fetch (unreachable_client ''timed out''))) =
     ([Connect, Print (fetch_error_line ''timed out'')], Inr (PNone, PNone)) \<and>
   main example_printable 30 None None (quiet_fetch (unreachable_client ''timed out''))
     [quiet_cycle (example_client (PStr ''CS00'') []),
      quiet_cycle (example_client (PStr ''CS02'') [])] =
     (banner 30 @ [Connect, Print (fetch_error_line ''timed out''), Print initial_failure_line],
      Exit 0)"
  using initial_fetch_failure_exits_zero
    [of 30 None None "\<lparr>poll_interval = 30, previous_state = PNone,
      previous_inverter_states = PNone, running = False\<rparr>"
      "quiet_fetch (unreachable_client ''timed out'')"
      "[Connect, Print (fetch_error_line ''timed out'')]" PNone example_printable
      "[quiet_cycle (example_client (PStr ''CS00'') []),
        quiet_cycle (example_client (PStr ''CS02'') [])]"]
  by (simp add: example_init quiet_fetch_def example_fetch_eval)

text \<open>
  Claim C1 as stated fails: the device cannot be reached at the initial fetch, and the
  process ends with exit status 0.
\<close>

theorem initial_fetch_failure_status_counterexample:
  "snd (get_current_state
          \<lparr>acquire = Some (Exception ''timed out''), get_charger_info = Inr (Record []),
           get_inverter_info = Inr (Objects []), release = None\<rparr>) = Inr (PNone, PNone) \<and>
   main example_printable 30 None None
     \<lparr>client = \<lparr>acquire = Some (Exception ''timed out''), get_charger_info = Inr (Record []),
                get_inverter_info = Inr (Objects []), release = None\<rparr>,
      signal_in_fetch = None\<rparr> [] =
     (banner 30 @ [Connect, Print (fetch_error_line ''timed out''), Print initial_failure_line],
      Exit 0)"
  by (simp add: main_def monitor_def monitor_start_def do_fetch_eq example_init
      get_current_state_def with_FCSP_def)

text \<open>
  Claim C7, amended. The constructor stores any interval, positive or not: when the two
  signal handlers are registered \<open>init\<close> succeeds and \<open>main\<close> goes on to the banner and the
  initial fetch. Construction fails only when registering a handler raises; that error is
  reported and the process exits with status 1 with no fetch and no sleep.
\<close>

theorem init_accepts_any_interval:
  "init interval None None =
     Inr \<lparr>poll_interval = interval, previous_state = PNone,
          previous_inverter_states = PNone, running = False\<rparr> \<and>
   (\<exists>rest. fst (main pr interval None None fe es) = banner interval @ Connect # rest) \<and>
   (init interval sigint_reg sigterm_reg = Inl (Exception msg) \<longrightarrow>
      main pr interval sigint_reg sigterm_reg fe es = ([Print (start_failure_line msg)], Exit 1))"
  by (auto simp: init_def main_def monitor_def monitor_start_def do_fetch_def get_current_state_def
        Let_def py_bind_def
      split: sum.splits py_exc.splits prod.splits bool.splits run_end.splits option.splits if_splits)

theorem init_accepts_any_interval_witness:
  "init 0 (Some (Exception ''signal only works in main thread'')) None =
     Inl (Exception ''signal only works in main thread'') \<and>
   main example_printable 0 (Some (Exception ''signal only works in main thread'')) None
     (quiet_fetch (example_client (PStr ''CS00'') []))
     [quiet_cycle (example_client (PStr ''CS00'') [])] =
     ([Print (start_failure_line ''signal only works in main thread'')], Exit 1)"
  using init_accepts_any_interval
    [of 0 example_printable "quiet_fetch (example_client (PStr ''CS00'') [])"
        "[quiet_cycle (example_client (PStr ''CS00'') [])]"
        "Some (Exception ''signal only works in main thread'')" None
        "''signal only works in main thread''"]
  by (simp add: init_def)

lemma example_cycle_zero_interval:
  "monitor_cycle pr (quiet_cycle (example_client (PStr ''CS00'') []))
     (example_monitor 0 (PStr ''CS00'') (PList [])) =
     ([Sleep 0, Connect], Continue, example_monitor 0 (PStr ''CS00'') (PList []))"
proof -
  have "get_current_state (client (fetch (quiet_cycle (example_client (PStr ''CS00'') [])))) =
     ([Connect], Inr (PStr ''CS00'', PList []))"
    by (simp add: quiet_cycle_sel example_fetch_eval)
  from monitor_cycle_polled [OF _ _ _ _ this, of "example_monitor 0 (PStr ''CS00'') (PList [])"]
  show ?thesis
    by (simp add: quiet_cycle_sel example_monitor_sel sleep_max_def)
qed

text \<open>
  Claim C7 as stated fails: with the interval 0 the monitor is constructed, fetches the initial
  state and polls.
\<close>

theorem interval_zero_accepted_counterexample:
  "init 0 None None = Inr \<lparr>poll_interval = 0, previous_state = PNone,
      previous_inverter_states = PNone, running = False\<rparr> \<and>
   main example_printable 0 None None (quiet_fetch (example_client (PStr ''CS00'') []))
     [quiet_cycle (example_client (PStr ''CS00'') [])] =
     (banner 0 @
      [Connect,
       Print (icon_chart @ '' Initial state: '' @ icon_green @ '' CS00 - Available''),
       Print (icon_cycle @ '' Starting monitoring loop...'' @ nl),
       Sleep 0, Connect],
      StillRunning)"
proof -
  have s: "monitor_start example_printable (quiet_fetch (example_client (PStr ''CS00'') []))
     \<lparr>poll_interval = 0, previous_state = PNone, previous_inverter_states = PNone,
      running = False\<rparr> =
     (banner 0 @
      [Connect,
       Print (icon_chart @ '' Initial state: '' @ icon_green @ '' CS00 - Available''),
       Print (icon_cycle @ '' Starting monitoring loop...'' @ nl)],
      Inr True, example_monitor 0 (PStr ''CS00'') (PList []))"
    by (simp add: monitor_start_def do_fetch_eq quiet_fetch_def example_fetch_eval describe_def
      DEVICE_STATES_def getitem_def py_bind_def py_str_def example_monitor_def)
  show ?thesis
    by (simp add: example_init main_def monitor_def s example_cycle_zero_interval
        example_monitor_sel)
qed

end
